theory Spec2Isabelle
  imports Main
begin

section \<open>Outcomes of a call\<close>

text \<open>
  The C functions of easypulse run on a caller thread and talk to the PulseAudio
  client library. A call either returns a value, or blocks for ever inside
  \<^verbatim>\<open>pa_threaded_mainloop_wait\<close> (a condition wait that only
  \<^verbatim>\<open>pa_threaded_mainloop_signal\<close> ends), or performs a memory access that C leaves
  undefined. The three cases are the constructors of \<open>outcome\<close>.
\<close>

datatype fault = OutOfBoundsRead | OutOfBoundsWrite | NullDereference | UninitialisedRead

datatype 'a outcome = Returned 'a | Blocked | Fault fault

section \<open>Catalog build: the source-list callback (v-0.12/system_query.c)\<close>

text \<open>
  \<^verbatim>\<open>pa_source_info\<close> as far as the callback touches it: the server index and the two
  strings it duplicates. A \<^verbatim>\<open>char *\<close> that may be \<^verbatim>\<open>NULL\<close> is a \<open>string option\<close>.
\<close>

record pa_source_info =
  source_index :: nat
  source_name :: "string option"
  source_description :: "string option"

text \<open>
  The file-scope \<^verbatim>\<open>shared_data_sources\<close>: the array (its first \<open>count\<close> slots, the
  ones that hold a record), \<open>count\<close> and \<open>allocated\<close> (both \<^verbatim>\<open>uint32_t\<close>, so arithmetic
  on them is taken modulo \<open>2 ^ 32\<close>). The pointer \<^verbatim>\<open>sources\<close> is \<^verbatim>\<open>NULL\<close> until the first
  successful \<^verbatim>\<open>realloc\<close>, which is when \<open>allocated\<close> leaves 0. The field \<open>reallocs\<close> is
  not in the C struct: it counts the successful \<^verbatim>\<open>realloc\<close> calls of the callback.
\<close>

record shared_data_sources_t =
  sources :: "pa_source_info list"
  count :: nat
  allocated :: nat
  reallocs :: nat

text \<open>
  What the allocator answers during one callback invocation: whether \<^verbatim>\<open>realloc\<close>,
  \<^verbatim>\<open>malloc\<close> and the two \<^verbatim>\<open>strdup\<close> calls succeed.
\<close>

record alloc_oracle =
  realloc_ok :: bool
  malloc_ok :: bool
  strdup_name_ok :: bool
  strdup_description_ok :: bool

definition uint32_t :: "nat \<Rightarrow> nat" where
  "uint32_t n = n mod 2 ^ 32"

text \<open>
  \<^verbatim>\<open>get_available_input_devices_cb(c, i, eol, userdata)\<close>. The result is the new shared
  state and whether the callback called \<^verbatim>\<open>pa_threaded_mainloop_signal\<close>. On the terminal
  invocation the callback stores the sentinel at \<^verbatim>\<open>sources[count]\<close> without looking at
  \<open>allocated\<close>. For a source it grows the array when \<open>count >= allocated\<close>, stores the
  result of \<^verbatim>\<open>malloc\<close> at \<^verbatim>\<open>sources[count]\<close>, tests it, copies \<^verbatim>\<open>*i\<close> and duplicates the two
  strings (a failed \<^verbatim>\<open>strdup\<close> leaves \<^verbatim>\<open>NULL\<close> in the record).
\<close>

definition get_available_input_devices_cb ::
  "alloc_oracle \<Rightarrow> pa_source_info option \<Rightarrow> int \<Rightarrow> shared_data_sources_t
     \<Rightarrow> fault + (shared_data_sources_t \<times> bool)" where
  "get_available_input_devices_cb al i eol sh =
    (if eol < 0 then Inr (sh, True)
     else if eol > 0 then
       (if allocated sh = 0 then Inl NullDereference
        else if count sh \<ge> allocated sh then Inl OutOfBoundsWrite
        else Inr (sh, True))
     else
       (let grow = (count sh \<ge> allocated sh) in
        if grow \<and> \<not> realloc_ok al then Inr (sh, True)
        else
          (let sh1 = (if grow
                      then sh\<lparr>allocated := uint32_t (allocated sh + 8),
                              reallocs := reallocs sh + 1\<rparr>
                      else sh) in
           if count sh1 \<ge> allocated sh1 then Inl OutOfBoundsWrite
           else if \<not> malloc_ok al then Inr (sh1, True)
           else
             (case i of
                None \<Rightarrow> Inl NullDereference
              | Some info \<Rightarrow>
                  Inr (sh1\<lparr>sources := sources sh1 @
                         [info\<lparr>source_name :=
                                  (if strdup_name_ok al then source_name info else None),
                                source_description :=
                                  (if strdup_description_ok al
                                   then source_description info else None)\<rparr>],
                         count := uint32_t (count sh1 + 1)\<rparr>, False)))))"

text \<open>
  The event loop calls the callback once per source and once more at the end of the
  list. \<open>deliver_sources\<close> runs the callback over the invocations the loop makes, in
  order; each invocation comes with the allocator's answers for it.
\<close>

fun deliver_sources ::
  "(alloc_oracle \<times> pa_source_info option \<times> int) list \<Rightarrow> shared_data_sources_t
     \<Rightarrow> fault + shared_data_sources_t" where
  "deliver_sources [] sh = Inr sh"
| "deliver_sources ((al, i, eol) # evs) sh =
     (case get_available_input_devices_cb al i eol sh of
        Inl f \<Rightarrow> Inl f
      | Inr (sh', _) \<Rightarrow> deliver_sources evs sh')"

definition all_ok :: alloc_oracle where
  "all_ok = \<lparr>realloc_ok = True, malloc_ok = True,
            strdup_name_ok = True, strdup_description_ok = True\<rparr>"

text \<open>
  \<^verbatim>\<open>get_available_input_devices\<close> resets the shared state (\<^verbatim>\<open>sources = NULL\<close>, both counters
  0) before it starts the list operation.
\<close>

definition shared_data_sources_init :: shared_data_sources_t where
  "shared_data_sources_init = \<lparr>sources = [], count = 0, allocated = 0, reallocs = 0\<rparr>"

text \<open>The invocations for a list of sources, every allocation succeeding.\<close>

definition source_items ::
  "pa_source_info list \<Rightarrow> (alloc_oracle \<times> pa_source_info option \<times> int) list" where
  "source_items infos = map (\<lambda>info. (all_ok, Some info, 0)) infos"

definition mk_source :: "nat \<Rightarrow> pa_source_info" where
  "mk_source k = \<lparr>source_index = k, source_name = Some ''src'',
                 source_description = Some ''Source''\<rparr>"

section \<open>The bounded wait loop of v-0.03 (v-0.03/easypulse_core.c)\<close>

datatype pa_operation_state_t = PA_OPERATION_RUNNING | PA_OPERATION_DONE | PA_OPERATION_CANCELLED

text \<open>
  What the caller thread sees of an operation: the list of the states that successive
  calls of \<^verbatim>\<open>pa_operation_get_state\<close> return, the head before any wait and each later
  one after one more wake-up of \<^verbatim>\<open>pa_threaded_mainloop_wait\<close>. Any signal on the loop
  wakes the caller, whether or not it comes from this operation, so the operation may
  still be running after a wake-up. When the list is used up no further signal
  arrives, and the wait that would produce the next state never returns. A \<^verbatim>\<open>NULL\<close>
  operation is \<open>None\<close>.
\<close>

type_synonym op_view = "pa_operation_state_t list"

definition MAX_WAIT_CYCLES :: nat where
  "MAX_WAIT_CYCLES = 100"

text \<open>
  \<^verbatim>\<open>iterate\<close> returns \<^verbatim>\<open>void\<close>. The record holds what it did: the waits it performed and
  whether it printed \<^verbatim>\<open>Error: Operation timeout. Exiting loop.\<close>
\<close>

record iterate_effects =
  wait_cycles :: nat
  timeout_printed :: bool

text \<open>The \<^verbatim>\<open>while\<close> loop of \<^verbatim>\<open>iterate\<close>, started with \<open>wait_cycles\<close> waits done.\<close>

fun wait_loop :: "op_view \<Rightarrow> nat \<Rightarrow> iterate_effects outcome" where
  "wait_loop [] n = Blocked"
| "wait_loop (s # later) n =
     (if s = PA_OPERATION_RUNNING then
        (if n \<ge> MAX_WAIT_CYCLES
         then Returned \<lparr>wait_cycles = n, timeout_printed = True\<rparr>
         else wait_loop later (n + 1))
      else Returned \<lparr>wait_cycles = n, timeout_printed = False\<rparr>)"

definition iterate_v003 :: "op_view option \<Rightarrow> iterate_effects outcome" where
  "iterate_v003 op =
     (case op of
        None \<Rightarrow> Returned \<lparr>wait_cycles = 0, timeout_printed = False\<rparr>
      | Some view \<Rightarrow> wait_loop view 0)"

text \<open>
  The return value of \<^verbatim>\<open>load_devices\<close>, a caller of \<^verbatim>\<open>iterate\<close>: \<^verbatim>\<open>false\<close> when
  \<^verbatim>\<open>pa_context_get_sink_info_list\<close> gave no operation, \<^verbatim>\<open>true\<close> once \<^verbatim>\<open>iterate\<close> is back.
\<close>

definition load_devices :: "op_view option \<Rightarrow> bool outcome" where
  "load_devices op =
     (case op of
        None \<Rightarrow> Returned False
      | Some view \<Rightarrow>
          (case iterate_v003 op of
             Returned _ \<Rightarrow> Returned True
           | Blocked \<Rightarrow> Blocked
           | Fault f \<Rightarrow> Fault f))"

section \<open>The PulseAudio client library, as the code uses it\<close>

text \<open>
  libpulse is not part of the repository. This section fixes what the model takes from
  its headers and its documented behaviour; the functions of the repository follow in
  the next sections.

  \<^verbatim>\<open>pa_volume_t\<close> is \<^verbatim>\<open>uint32_t\<close>; the values the code computes stay far below
  \<open>2 ^ 32\<close>, so they are natural numbers here. From \<^verbatim>\<open>pulse/volume.h\<close>:
  \<^verbatim>\<open>PA_VOLUME_NORM = 0x10000\<close>, \<^verbatim>\<open>PA_VOLUME_MUTED = 0\<close>,
  \<^verbatim>\<open>PA_VOLUME_MAX = UINT32_MAX / 2\<close>, and \<^verbatim>\<open>PA_CHANNELS_MAX = 32\<close>.
\<close>

type_synonym pa_volume_t = nat

definition PA_VOLUME_NORM :: pa_volume_t where
  "PA_VOLUME_NORM = 65536"

definition PA_VOLUME_MUTED :: pa_volume_t where
  "PA_VOLUME_MUTED = 0"

definition PA_VOLUME_MAX :: pa_volume_t where
  "PA_VOLUME_MAX = 2147483647"

definition PA_CHANNELS_MAX :: nat where
  "PA_CHANNELS_MAX = 32"

definition UINT32_MAX :: nat where
  "UINT32_MAX = 4294967295"

text \<open>
  \<^verbatim>\<open>pa_cvolume\<close> is a channel count and an array of \<^verbatim>\<open>PA_CHANNELS_MAX\<close> values, of
  which only the first \<^verbatim>\<open>channels\<close> are read, compared or sent. The model keeps these:
  a \<open>pa_cvolume\<close> is the list of its first \<^verbatim>\<open>channels\<close> values.
\<close>

type_synonym pa_cvolume = "pa_volume_t list"

text \<open>
  \<^verbatim>\<open>pa_cvolume_set\<close> stores the value in the first \<^verbatim>\<open>channels\<close> entries (libpulse asserts
  \<open>0 < channels \<le> PA_CHANNELS_MAX\<close>, which the channel map of a sink satisfies);
  \<^verbatim>\<open>pa_cvolume_max\<close> is the largest of the entries, starting from \<^verbatim>\<open>PA_VOLUME_MUTED\<close>;
  \<^verbatim>\<open>pa_cvolume_valid\<close> is the test libpulse applies before it sends a volume.
\<close>

definition pa_cvolume_set :: "nat \<Rightarrow> pa_volume_t \<Rightarrow> pa_cvolume" where
  "pa_cvolume_set channels v = replicate channels v"

definition pa_cvolume_max :: "pa_cvolume \<Rightarrow> pa_volume_t" where
  "pa_cvolume_max a = foldl max PA_VOLUME_MUTED a"

definition pa_cvolume_valid :: "pa_cvolume \<Rightarrow> bool" where
  "pa_cvolume_valid a \<longleftrightarrow>
     0 < length a \<and> length a \<le> PA_CHANNELS_MAX \<and> list_all (\<lambda>v. v \<le> PA_VOLUME_MAX) a"

record pa_sink_info =
  sink_index :: nat
  sink_name :: "string option"
  sink_description :: "string option"
  sink_channel_map_channels :: nat
  sink_volume :: pa_cvolume
  sink_mute :: bool

record pa_sink_input_info =
  input_index :: nat
  input_sink :: nat

text \<open>
  The two connections of the program: the manager's own context
  (\<^verbatim>\<open>manager->context\<close>) and the one \<^verbatim>\<open>system_query.c\<close> keeps in its file-scope
  \<^verbatim>\<open>shared_data_1\<close>.
\<close>

datatype pa_context = ManagerContext | QueryContext

datatype request =
    GetSinkInfoByIndex nat
  | GetSinkInfoByName string
  | SetSinkVolumeByIndex nat pa_cvolume
  | SetSinkMuteByIndex nat bool
  | SetDefaultSink string
  | GetSinkInputInfoList
  | MoveSinkInputByIndex nat nat

text \<open>
  The audio server and the two connections to it.
  \<^item> \<open>context_ready\<close>: \<^verbatim>\<open>manager->context\<close> is in state \<^verbatim>\<open>PA_CONTEXT_READY\<close>.
  \<^item> \<open>query_ready\<close>: \<^verbatim>\<open>is_pulse_initialized()\<close> holds, or \<^verbatim>\<open>initialize_pulse()\<close>
    succeeds when it is tried; either way the query connection is ready afterwards.
  \<^item> \<open>responsive\<close>: the server answers requests; \<open>False\<close> is a server that hangs.
  \<^item> \<open>sinks\<close>, \<open>default_sink_name\<close>, \<open>sink_inputs\<close>: the state of the server.
  \<^item> \<open>submitted\<close>: every request sent to the server, in order (the call counter).
  \<^item> \<open>diagnostics\<close>: the lines the code prints.
\<close>

record pulse =
  context_ready :: bool
  query_ready :: bool
  responsive :: bool
  sinks :: "pa_sink_info list"
  default_sink_name :: "string option"
  sink_inputs :: "pa_sink_input_info list"
  submitted :: "request list"
  diagnostics :: "string list"

definition pa_context_ready :: "pulse \<Rightarrow> pa_context \<Rightarrow> bool" where
  "pa_context_ready p c = (case c of ManagerContext \<Rightarrow> context_ready p
                                   | QueryContext \<Rightarrow> query_ready p)"

definition submit :: "request \<Rightarrow> pulse \<Rightarrow> pulse" where
  "submit r p = p\<lparr>submitted := submitted p @ [r]\<rparr>"

definition print :: "string \<Rightarrow> pulse \<Rightarrow> pulse" where
  "print msg p = p\<lparr>diagnostics := diagnostics p @ [msg]\<rparr>"

definition sink_by_index :: "pulse \<Rightarrow> nat \<Rightarrow> pa_sink_info option" where
  "sink_by_index p idx = find (\<lambda>s. sink_index s = idx) (sinks p)"

definition sink_by_name :: "pulse \<Rightarrow> string \<Rightarrow> pa_sink_info option" where
  "sink_by_name p n = find (\<lambda>s. sink_name s = Some n) (sinks p)"

text \<open>
  A callback gets the context of its operation and the reply data, and works on its
  \<^verbatim>\<open>userdata\<close> and on the environment. It yields a fault, or the new \<^verbatim>\<open>userdata\<close>, the new
  environment and whether it called \<^verbatim>\<open>pa_threaded_mainloop_signal\<close>.

  A \<^verbatim>\<open>pa_operation\<close> is what the event loop does when the reply arrives: it calls the
  callback for each part of the reply, all of them under the loop lock, so a waiting
  caller resumes only after the last one. \<^verbatim>\<open>NULL\<close> is \<open>None\<close>.
\<close>

type_synonym 'u cb_result = "fault + ('u \<times> pulse \<times> bool)"

type_synonym 'u pa_operation = "'u \<Rightarrow> pulse \<Rightarrow> 'u cb_result"

fun dispatch :: "('e \<Rightarrow> 'u \<Rightarrow> pulse \<Rightarrow> 'u cb_result) \<Rightarrow> 'e list \<Rightarrow> 'u pa_operation" where
  "dispatch cb [] u p = Inr (u, p, False)"
| "dispatch cb (e # es) u p =
     (case cb e u p of
        Inl f \<Rightarrow> Inl f
      | Inr (u1, p1, s1) \<Rightarrow>
          (case dispatch cb es u1 p1 of
             Inl f \<Rightarrow> Inl f
           | Inr (u2, p2, s2) \<Rightarrow> Inr (u2, p2, s1 \<or> s2)))"

text \<open>
  The reply to a request for one sink: the sink and then end-of-list, or, when there is
  no such sink, a single invocation with \<^verbatim>\<open>eol = -1\<close>. A hanging server sends nothing.
\<close>

definition sink_info_reply :: "pulse \<Rightarrow> pa_sink_info option \<Rightarrow> (pa_sink_info option \<times> int) list" where
  "sink_info_reply p found =
     (if \<not> responsive p then []
      else (case found of
              Some s \<Rightarrow> [(Some s, 0), (None, 1)]
            | None \<Rightarrow> [(None, - 1)]))"

definition pa_context_get_sink_info_by_index ::
  "pa_context \<Rightarrow> nat \<Rightarrow> (pa_context \<Rightarrow> pa_sink_info option \<times> int \<Rightarrow> 'u \<Rightarrow> pulse \<Rightarrow> 'u cb_result)
     \<Rightarrow> pulse \<Rightarrow> 'u pa_operation option \<times> pulse" where
  "pa_context_get_sink_info_by_index c idx cb p =
     (if \<not> pa_context_ready p c then (None, p)
      else (Some (dispatch (cb c) (sink_info_reply p (sink_by_index p idx))),
            submit (GetSinkInfoByIndex idx) p))"

definition pa_context_get_sink_info_by_name ::
  "pa_context \<Rightarrow> string \<Rightarrow> (pa_context \<Rightarrow> pa_sink_info option \<times> int \<Rightarrow> 'u \<Rightarrow> pulse \<Rightarrow> 'u cb_result)
     \<Rightarrow> pulse \<Rightarrow> 'u pa_operation option \<times> pulse" where
  "pa_context_get_sink_info_by_name c n cb p =
     (if \<not> pa_context_ready p c then (None, p)
      else (Some (dispatch (cb c) (sink_info_reply p (sink_by_name p n))),
            submit (GetSinkInfoByName n) p))"

text \<open>
  Requests that change the server are acknowledged with a success flag. The server
  applies the change when it receives the request and a sink of that index (or name)
  exists. A volume is accepted when its channel count is that of the sink; a vector of
  another length is answered with a failure here.
\<close>

definition ack_reply :: "pulse \<Rightarrow> bool \<Rightarrow> int list" where
  "ack_reply p ok = (if \<not> responsive p then [] else [if ok then 1 else 0])"

definition set_sink_volume :: "nat \<Rightarrow> pa_cvolume \<Rightarrow> pulse \<Rightarrow> pulse" where
  "set_sink_volume idx v p =
     p\<lparr>sinks := map (\<lambda>s. if sink_index s = idx then s\<lparr>sink_volume := v\<rparr> else s) (sinks p)\<rparr>"

definition set_sink_mute :: "nat \<Rightarrow> bool \<Rightarrow> pulse \<Rightarrow> pulse" where
  "set_sink_mute idx m p =
     p\<lparr>sinks := map (\<lambda>s. if sink_index s = idx then s\<lparr>sink_mute := m\<rparr> else s) (sinks p)\<rparr>"

definition move_sink_input :: "nat \<Rightarrow> nat \<Rightarrow> pulse \<Rightarrow> pulse" where
  "move_sink_input idx target p =
     p\<lparr>sink_inputs :=
          map (\<lambda>i. if input_index i = idx then i\<lparr>input_sink := target\<rparr> else i) (sink_inputs p)\<rparr>"

definition pa_context_set_sink_volume_by_index ::
  "pa_context \<Rightarrow> nat \<Rightarrow> pa_cvolume \<Rightarrow> (pa_context \<Rightarrow> int \<Rightarrow> 'u \<Rightarrow> pulse \<Rightarrow> 'u cb_result)
     \<Rightarrow> pulse \<Rightarrow> 'u pa_operation option \<times> pulse" where
  "pa_context_set_sink_volume_by_index c idx v cb p =
     (if \<not> pa_context_ready p c \<or> \<not> pa_cvolume_valid v then (None, p)
      else
        (let ok = (case sink_by_index p idx of
                     Some s \<Rightarrow> length v = length (sink_volume s)
                   | None \<Rightarrow> False);
             p1 = submit (SetSinkVolumeByIndex idx v) p;
             p2 = (if responsive p \<and> ok then set_sink_volume idx v p1 else p1)
         in (Some (dispatch (cb c) (ack_reply p ok)), p2)))"

definition pa_context_set_sink_mute_by_index ::
  "pa_context \<Rightarrow> nat \<Rightarrow> int \<Rightarrow> (pa_context \<Rightarrow> int \<Rightarrow> 'u \<Rightarrow> pulse \<Rightarrow> 'u cb_result)
     \<Rightarrow> pulse \<Rightarrow> 'u pa_operation option \<times> pulse" where
  "pa_context_set_sink_mute_by_index c idx mute cb p =
     (if \<not> pa_context_ready p c then (None, p)
      else
        (let ok = (sink_by_index p idx \<noteq> None);
             p1 = submit (SetSinkMuteByIndex idx (mute \<noteq> 0)) p;
             p2 = (if responsive p \<and> ok then set_sink_mute idx (mute \<noteq> 0) p1 else p1)
         in (Some (dispatch (cb c) (ack_reply p ok)), p2)))"

definition pa_context_set_default_sink ::
  "pa_context \<Rightarrow> string \<Rightarrow> (pa_context \<Rightarrow> int \<Rightarrow> 'u \<Rightarrow> pulse \<Rightarrow> 'u cb_result)
     \<Rightarrow> pulse \<Rightarrow> 'u pa_operation option \<times> pulse" where
  "pa_context_set_default_sink c n cb p =
     (if \<not> pa_context_ready p c then (None, p)
      else
        (let ok = (sink_by_name p n \<noteq> None);
             p1 = submit (SetDefaultSink n) p;
             p2 = (if responsive p \<and> ok then p1\<lparr>default_sink_name := Some n\<rparr> else p1)
         in (Some (dispatch (cb c) (ack_reply p ok)), p2)))"

text \<open>
  The list of active playback streams: one invocation per stream, then end-of-list.
\<close>

definition pa_context_get_sink_input_info_list ::
  "pa_context \<Rightarrow> (pa_context \<Rightarrow> pa_sink_input_info option \<times> int \<Rightarrow> 'u \<Rightarrow> pulse \<Rightarrow> 'u cb_result)
     \<Rightarrow> pulse \<Rightarrow> 'u pa_operation option \<times> pulse" where
  "pa_context_get_sink_input_info_list c cb p =
     (if \<not> pa_context_ready p c then (None, p)
      else (Some (dispatch (cb c)
                    (if \<not> responsive p then []
                     else map (\<lambda>i. (Some i, 0)) (sink_inputs p) @ [(None, 1)])),
            submit GetSinkInputInfoList p))"

text \<open>
  \<^verbatim>\<open>pa_context_move_sink_input_by_index\<close> with a \<^verbatim>\<open>NULL\<close> callback, as the code calls it:
  the result tells whether an operation was created.
\<close>

definition pa_context_move_sink_input_by_index ::
  "pa_context \<Rightarrow> nat \<Rightarrow> nat \<Rightarrow> pulse \<Rightarrow> bool \<times> pulse" where
  "pa_context_move_sink_input_by_index c idx sink_idx p =
     (if \<not> pa_context_ready p c then (False, p)
      else
        (let p1 = submit (MoveSinkInputByIndex idx sink_idx) p
         in (True, if responsive p \<and> sink_by_index p sink_idx \<noteq> None
                   then move_sink_input idx sink_idx p1 else p1)))"

section \<open>The blocking primitive\<close>

text \<open>
  \<^verbatim>\<open>iterate\<close> of v-0.14/easypulse_core.c: return at once for a \<^verbatim>\<open>NULL\<close> operation;
  otherwise lock the loop (unless called on the loop thread), call
  \<^verbatim>\<open>pa_threaded_mainloop_wait\<close> once, release the operation and unlock. The function is
  \<^verbatim>\<open>void\<close>. The wait ends when a callback of the operation signals; when none does, the
  caller stays blocked. There is no counter and no test of the operation's state.

  The reply is taken to arrive while the caller waits, as a request needs a round-trip
  to the server. A reply that the loop thread dispatches before the caller has taken
  the lock is a race between the two threads; it is outside this model.
\<close>

definition iterate :: "'u pa_operation option \<Rightarrow> 'u \<Rightarrow> pulse \<Rightarrow> unit outcome \<times> 'u \<times> pulse" where
  "iterate op u p =
     (case op of
        None \<Rightarrow> (Returned (), u, p)
      | Some run \<Rightarrow>
          (case run u p of
             Inl f \<Rightarrow> (Fault f, u, p)
           | Inr (u', p', signalled) \<Rightarrow>
               (if signalled then Returned () else Blocked, u', p')))"

text \<open>
  \<^verbatim>\<open>iterate\<close> of v-0.12/system_query.c: the same, but it prints a line for a \<^verbatim>\<open>NULL\<close>
  operation and waits in \<^verbatim>\<open>while (pa_operation_get_state(op) == PA_OPERATION_RUNNING)\<close>.
  The operation is running when the loop is entered and done once its callbacks have
  run, so the loop waits once when a callback signals and for ever when none does.
\<close>

definition iterate_sq :: "'u pa_operation option \<Rightarrow> 'u \<Rightarrow> pulse \<Rightarrow> unit outcome \<times> 'u \<times> pulse" where
  "iterate_sq op u p =
     (case op of
        None \<Rightarrow> (Returned (), u, print ''[DEBUG] Operation is NULL'' p)
      | Some run \<Rightarrow>
          (case run u p of
             Inl f \<Rightarrow> (Fault f, u, p)
           | Inr (u', p', signalled) \<Rightarrow>
               (if signalled then Returned () else Blocked, u', p')))"

section \<open>Queries of v-0.12/system_query.c that the manager calls\<close>

text \<open>
  \<^verbatim>\<open>get_output_device_by_index_cb\<close>: \<^verbatim>\<open>userdata\<close> is the buffer for the sink
  (\<open>None\<close> while nothing has been stored in the fresh allocation).
\<close>

definition get_output_device_by_index_cb ::
  "pa_context \<Rightarrow> pa_sink_info option \<times> int \<Rightarrow> pa_sink_info option \<Rightarrow> pulse
     \<Rightarrow> pa_sink_info option cb_result" where
  "get_output_device_by_index_cb c ev sink_info p =
     (case ev of (i, eol) \<Rightarrow>
        (if eol < 0 \<or> eol > 0 \<or> i = None then Inr (sink_info, p, eol > 0)
         else Inr (i, p, True)))"

text \<open>
  \<^verbatim>\<open>get_output_device_by_index\<close>: \<^verbatim>\<open>NULL\<close> (\<open>None\<close>) when the connection cannot be used or
  the buffer's name is \<^verbatim>\<open>NULL\<close> after the wait. Reading the name of a buffer that no
  callback filled reads uninitialised memory. The \<^verbatim>\<open>malloc\<close> of the buffer is taken to
  succeed.
\<close>

definition get_output_device_by_index :: "nat \<Rightarrow> pulse \<Rightarrow> pa_sink_info option outcome \<times> pulse" where
  "get_output_device_by_index idx p =
     (if \<not> query_ready p
      then (Returned None, print ''[get_output_device_by_index] Failed to initialize pulseaudio.'' p)
      else
        (case pa_context_get_sink_info_by_index QueryContext idx get_output_device_by_index_cb p of
           (op, p1) \<Rightarrow>
             (case iterate_sq op None p1 of
                (Fault f, _, p2) \<Rightarrow> (Fault f, p2)
              | (Blocked, _, p2) \<Rightarrow> (Blocked, p2)
              | (Returned _, sink_info, p2) \<Rightarrow>
                  (case sink_info of
                     None \<Rightarrow> (Fault UninitialisedRead, p2)
                   | Some s \<Rightarrow>
                       (if sink_name s = None then (Returned None, p2)
                        else (Returned (Some s), p2))))))"

definition get_output_device_index_by_code_cb ::
  "pa_context \<Rightarrow> pa_sink_info option \<times> int \<Rightarrow> nat \<Rightarrow> pulse \<Rightarrow> nat cb_result" where
  "get_output_device_index_by_code_cb c ev index_ptr p =
     (case ev of (info, eol) \<Rightarrow>
        (if eol < 0 then Inr (index_ptr, print ''Error occurred in sink_info_cb.'' p, False)
         else
           (case info of
              Some s \<Rightarrow> Inr (if eol = 0 then sink_index s else index_ptr, p, True)
            | None \<Rightarrow> Inr (index_ptr, p, True))))"

definition get_output_device_index_by_code ::
  "pa_context option \<Rightarrow> string option \<Rightarrow> pulse \<Rightarrow> nat outcome \<times> pulse" where
  "get_output_device_index_by_code ctx device_code p =
     (if \<not> query_ready p
      then (Returned UINT32_MAX,
            print ''get_output_device_index_by_code()] Failed to initialize pulseaudio.'' p)
      else
        (case (ctx, device_code) of
           (Some c, Some code) \<Rightarrow>
             (case pa_context_get_sink_info_by_name c code get_output_device_index_by_code_cb p of
                (op, p1) \<Rightarrow>
                  (case iterate_sq op 0 p1 of
                     (Fault f, _, p2) \<Rightarrow> (Fault f, p2)
                   | (Blocked, _, p2) \<Rightarrow> (Blocked, p2)
                   | (Returned _, idx, p2) \<Rightarrow> (Returned idx, p2)))
         | _ \<Rightarrow> (Returned UINT32_MAX, print ''Invalid arguments.'' p)))"

section \<open>The manager of v-0.14/easypulse_core.c\<close>

text \<open>
  \<^verbatim>\<open>pulseaudio_device\<close> and \<^verbatim>\<open>pulseaudio_manager\<close>, with the fields the functions below
  read. \<open>outputs\<close> is the array \<^verbatim>\<open>manager_create\<close> allocates with \<^verbatim>\<open>output_count\<close>
  elements. A manager pointer that may be \<^verbatim>\<open>NULL\<close> is a \<open>pulseaudio_manager option\<close>.
  None of the functions below stores through the manager pointer, so none of them has
  a manager in its result.
\<close>

record pulseaudio_device =
  dev_index :: nat
  dev_code :: "string option"
  dev_name :: "string option"
  dev_master_volume :: int

record pulseaudio_manager =
  mgr_context :: "pa_context option"
  outputs :: "pulseaudio_device list"
  output_count :: nat
  active_output_device :: "string option"

subsection \<open>\<^verbatim>\<open>manager_set_master_volume\<close>\<close>

definition manager_set_master_volume_cb :: "pa_context \<Rightarrow> int \<Rightarrow> unit \<Rightarrow> pulse \<Rightarrow> unit cb_result" where
  "manager_set_master_volume_cb c success u p =
     Inr (u, print (if success \<noteq> 0 then ''Volume set successfully.''
                    else ''Failed to set volume.'') p, True)"

text \<open>
  The raw volume is \<^verbatim>\<open>(pa_volume_t) ((double) volume / 100.0 * PA_VOLUME_NORM)\<close>, reached
  only for \<open>0 \<le> volume \<le> 100\<close>. For these integers the double computation equals
  the integer quotient \<open>volume * 65536 div 100\<close>: the product with \<open>65536 = 2 ^ 16\<close> is
  exact, the quotient \<^verbatim>\<open>volume / 100.0\<close> is off by at most \<open>2 ^ - 53\<close>, and
  \<open>volume * 65536 / 100 = volume * 16384 / 25\<close> is either an integer (when 25 divides
  \<open>volume\<close>, and then \<^verbatim>\<open>volume / 100.0\<close> is one of 0, 0.25, 0.5, 0.75, 1 and exact) or at
  least \<open>1 / 25\<close> away from every integer, so the truncation is not affected.
\<close>

definition manager_set_master_volume ::
  "pulseaudio_manager option \<Rightarrow> nat \<Rightarrow> int \<Rightarrow> pulse \<Rightarrow> int outcome \<times> pulse" where
  "manager_set_master_volume manager device_id volume p =
     (case manager of
        None \<Rightarrow> (Returned (- 1), print ''Manager is NULL'' p)
      | Some m \<Rightarrow>
          (if volume < 0 \<or> volume > 100
           then (Returned (- 1),
                 print ''[manager_set_master_volume] The volume specified is out of range (0-100).'' p)
           else
             (case get_output_device_by_index device_id p of
                (Fault f, p1) \<Rightarrow> (Fault f, p1)
              | (Blocked, p1) \<Rightarrow> (Blocked, p1)
              | (Returned None, p1) \<Rightarrow>
                  (Returned (- 1), print ''Could not retrieve sink info for device ID'' p1)
              | (Returned (Some sink_info), p1) \<Rightarrow>
                  (let pa_volume = nat (volume * int PA_VOLUME_NORM div 100);
                       cvolume = pa_cvolume_set (sink_channel_map_channels sink_info) pa_volume
                   in (case mgr_context m of
                         None \<Rightarrow> (Fault NullDereference, p1)
                       | Some c \<Rightarrow>
                           (case pa_context_set_sink_volume_by_index c device_id cvolume
                                   manager_set_master_volume_cb p1 of
                              (None, p2) \<Rightarrow>
                                (Returned (- 1), print ''Failed to start volume set operation'' p2)
                            | (Some run, p2) \<Rightarrow>
                                (case iterate (Some run) () p2 of
                                   (Fault f, _, p3) \<Rightarrow> (Fault f, p3)
                                 | (Blocked, _, p3) \<Rightarrow> (Blocked, p3)
                                 | (Returned _, _, p3) \<Rightarrow> (Returned 0, p3))))))))"

subsection \<open>\<^verbatim>\<open>manager_toggle_output_mute\<close>\<close>

definition manager_toggle_output_mute_cb :: "pa_context \<Rightarrow> int \<Rightarrow> unit \<Rightarrow> pulse \<Rightarrow> unit cb_result" where
  "manager_toggle_output_mute_cb c success u p =
     Inr (u, if success = 0 then print ''Failed to toggle mute state.'' p else p, True)"

definition manager_toggle_output_mute ::
  "pulseaudio_manager option \<Rightarrow> nat \<Rightarrow> int \<Rightarrow> pulse \<Rightarrow> int outcome \<times> pulse" where
  "manager_toggle_output_mute manager index state p =
     (case manager of
        None \<Rightarrow> (Returned (- 1), print ''Invalid PulseAudio manager or context.'' p)
      | Some m \<Rightarrow>
          (case mgr_context m of
             None \<Rightarrow> (Returned (- 1), print ''Invalid PulseAudio manager or context.'' p)
           | Some c \<Rightarrow>
               (if index \<ge> output_count m
                then (Returned (- 1), print ''Output device index out of range.'' p)
                else
                  (case pa_context_set_sink_mute_by_index c index state
                          manager_toggle_output_mute_cb p of
                     (op, p1) \<Rightarrow>
                       (case iterate op () p1 of
                          (Fault f, _, p2) \<Rightarrow> (Fault f, p2)
                        | (Blocked, _, p2) \<Rightarrow> (Blocked, p2)
                        | (Returned _, _, p2) \<Rightarrow> (Returned 0, p2))))))"

subsection \<open>\<^verbatim>\<open>manager_switch_default_output\<close>\<close>

text \<open>\<^verbatim>\<open>_shared_data_1\<close>: the manager and the index of the new default sink.\<close>

record shared_data_1_t =
  sd1_manager :: pulseaudio_manager
  new_index :: nat

definition manager_switch_default_output_cb :: "pa_context \<Rightarrow> int \<Rightarrow> unit \<Rightarrow> pulse \<Rightarrow> unit cb_result" where
  "manager_switch_default_output_cb c success u p =
     Inr (u, if success = 0 then print ''Failed to set default sink.'' p else p, True)"

definition manager_switch_default_output_cb_2 ::
  "pa_context \<Rightarrow> pa_sink_input_info option \<times> int \<Rightarrow> shared_data_1_t \<Rightarrow> pulse
     \<Rightarrow> shared_data_1_t cb_result" where
  "manager_switch_default_output_cb_2 c ev shared_data p =
     (case ev of (i, eol) \<Rightarrow>
        (if eol < 0 then Inr (shared_data, p, True)
         else
           (case (if eol = 0 then i else None) of
              Some info \<Rightarrow>
                (case pa_context_move_sink_input_by_index c (input_index info)
                        (new_index shared_data) p of
                   (op_move, p1) \<Rightarrow> Inr (shared_data, p1, op_move \<or> eol > 0))
            | None \<Rightarrow> Inr (shared_data, p, eol > 0))))"

text \<open>
  The first statement of the function initialises \<^verbatim>\<open>shared_data\<close> from
  \<^verbatim>\<open>self->outputs[device_index].index\<close>; the test of \<^verbatim>\<open>self\<close>, of the context and of
  \<^verbatim>\<open>device_index >= self->output_count\<close> comes after it.
\<close>

definition manager_switch_default_output ::
  "pulseaudio_manager option \<Rightarrow> nat \<Rightarrow> pulse \<Rightarrow> bool outcome \<times> pulse" where
  "manager_switch_default_output self device_index p =
     (case self of
        None \<Rightarrow> (Fault NullDereference, p)
      | Some m \<Rightarrow>
          (if device_index \<ge> length (outputs m) then (Fault OutOfBoundsRead, p)
           else
             (let shared_data = \<lparr>sd1_manager = m,
                                 new_index = dev_index (outputs m ! device_index)\<rparr>
              in (case mgr_context m of
                    None \<Rightarrow> (Returned False, print ''Invalid arguments provided.'' p)
                  | Some c \<Rightarrow>
                      (if device_index \<ge> output_count m
                       then (Returned False, print ''Invalid arguments provided.'' p)
                       else
                         (case dev_code (outputs m ! device_index) of
                            None \<Rightarrow> (Returned False, print ''Output device code is NULL.'' p)
                          | Some new_sink_name \<Rightarrow>
                              (case pa_context_set_default_sink c new_sink_name
                                      manager_switch_default_output_cb p of
                                 (op, p1) \<Rightarrow>
                                   (case iterate op () p1 of
                                      (Fault f, _, p2) \<Rightarrow> (Fault f, p2)
                                    | (Blocked, _, p2) \<Rightarrow> (Blocked, p2)
                                    | (Returned _, _, p2) \<Rightarrow>
                                        (case get_output_device_index_by_code (Some c)
                                                (Some new_sink_name) p2 of
                                           (Fault f, p3) \<Rightarrow> (Fault f, p3)
                                         | (Blocked, p3) \<Rightarrow> (Blocked, p3)
                                         | (Returned idx, p3) \<Rightarrow>
                                             (case pa_context_get_sink_input_info_list c
                                                     manager_switch_default_output_cb_2 p3 of
                                                (op2, p4) \<Rightarrow>
                                                  (case iterate op2
                                                          (shared_data\<lparr>new_index := idx\<rparr>) p4 of
                                                     (Fault f, _, p5) \<Rightarrow> (Fault f, p5)
                                                   | (Blocked, _, p5) \<Rightarrow> (Blocked, p5)
                                                   | (Returned _, _, p5) \<Rightarrow>
                                                       (Returned True, p5))))))))))))"

subsection \<open>\<^verbatim>\<open>manager_set_output_mute_state\<close>\<close>

text \<open>
  \<^verbatim>\<open>_shared_data_2\<close>. \<open>new_volume\<close> is \<open>None\<close> until the callback assigns it: the
  function declares \<^verbatim>\<open>volume_data\<close> without initialising that member.
\<close>

record shared_data_2_t =
  channel_index :: nat
  mute_state :: bool
  new_volume :: "pa_cvolume option"

text \<open>
  The store to \<^verbatim>\<open>new_volume.values[channel_index]\<close>: into the vector for a channel of
  the device, into an unused slot of the array up to \<^verbatim>\<open>PA_CHANNELS_MAX\<close>, outside the
  array beyond that.
\<close>

definition manager_set_output_channel_mute_state_cb ::
  "pa_context \<Rightarrow> pa_sink_info option \<times> int \<Rightarrow> shared_data_2_t \<Rightarrow> pulse
     \<Rightarrow> shared_data_2_t cb_result" where
  "manager_set_output_channel_mute_state_cb c ev data p =
     (case ev of (info, eol) \<Rightarrow>
        (if eol > 0 then Inr (data, p, True)
         else
           (case info of
              None \<Rightarrow> Inr (data, p, False)
            | Some s \<Rightarrow>
                (let v = (if mute_state data then PA_VOLUME_MUTED
                          else pa_cvolume_max (sink_volume s))
                 in if channel_index data < length (sink_volume s)
                    then Inr (data\<lparr>new_volume :=
                                      Some ((sink_volume s)[channel_index data := v])\<rparr>, p, False)
                    else if channel_index data < PA_CHANNELS_MAX
                    then Inr (data\<lparr>new_volume := Some (sink_volume s)\<rparr>, p, False)
                    else Inl OutOfBoundsWrite))))"

definition manager_set_output_channel_mute_state_cb2 ::
  "pa_context \<Rightarrow> int \<Rightarrow> shared_data_2_t \<Rightarrow> pulse \<Rightarrow> shared_data_2_t cb_result" where
  "manager_set_output_channel_mute_state_cb2 c success data p =
     Inr (data, if success = 0 then print ''Failed to set output device volume.'' p else p, True)"

definition manager_set_output_mute_state ::
  "pulseaudio_manager option \<Rightarrow> nat \<Rightarrow> nat \<Rightarrow> bool \<Rightarrow> pulse \<Rightarrow> int outcome \<times> pulse" where
  "manager_set_output_mute_state self sink_idx channel_idx mute p =
     (case self of
        None \<Rightarrow> (Fault NullDereference, p)
      | Some m \<Rightarrow>
          (case mgr_context m of
             None \<Rightarrow> (Returned (- 1), print ''Failed to get PulseAudio context.'' p)
           | Some c \<Rightarrow>
               (let volume_data = \<lparr>channel_index = channel_idx, mute_state = mute,
                                   new_volume = None\<rparr>
                in (case pa_context_get_sink_info_by_index c sink_idx
                           manager_set_output_channel_mute_state_cb p of
                      (None, p1) \<Rightarrow>
                        (Returned (- 1),
                         print ''Failed to start output device information operation.'' p1)
                    | (Some run, p1) \<Rightarrow>
                        (case iterate (Some run) volume_data p1 of
                           (Fault f, _, p2) \<Rightarrow> (Fault f, p2)
                         | (Blocked, _, p2) \<Rightarrow> (Blocked, p2)
                         | (Returned _, data, p2) \<Rightarrow>
                             (case new_volume data of
                                None \<Rightarrow> (Fault UninitialisedRead, p2)
                              | Some v \<Rightarrow>
                                  (case pa_context_set_sink_volume_by_index c sink_idx v
                                          manager_set_output_channel_mute_state_cb2 p2 of
                                     (op2, p3) \<Rightarrow>
                                       (case iterate op2 data p3 of
                                          (Fault f, _, p4) \<Rightarrow> (Fault f, p4)
                                        | (Blocked, _, p4) \<Rightarrow> (Blocked, p4)
                                        | (Returned _, _, p4) \<Rightarrow> (Returned 0, p4)))))))))"

section \<open>A concrete server and manager\<close>

text \<open>
  The example of the specification: two outputs, \<open>out.0\<close> (Speakers) and \<open>out.1\<close>
  (Headphones), and three active playback streams on the first.
\<close>

definition demo_speakers :: pa_sink_info where
  "demo_speakers = \<lparr>sink_index = 0, sink_name = Some ''out.0'',
     sink_description = Some ''Speakers'', sink_channel_map_channels = 2,
     sink_volume = [30000, 50000], sink_mute = False\<rparr>"

definition demo_headphones :: pa_sink_info where
  "demo_headphones = \<lparr>sink_index = 1, sink_name = Some ''out.1'',
     sink_description = Some ''Headphones'', sink_channel_map_channels = 2,
     sink_volume = [40000, 40000], sink_mute = False\<rparr>"

definition demo_streams :: "pa_sink_input_info list" where
  "demo_streams = [\<lparr>input_index = 10, input_sink = 0\<rparr>, \<lparr>input_index = 11, input_sink = 0\<rparr>,
                   \<lparr>input_index = 12, input_sink = 0\<rparr>]"

definition demo_pulse :: pulse where
  "demo_pulse = \<lparr>context_ready = True, query_ready = True, responsive = True,
     sinks = [demo_speakers, demo_headphones], default_sink_name = Some ''out.0'',
     sink_inputs = demo_streams, submitted = [], diagnostics = []\<rparr>"

definition demo_manager :: pulseaudio_manager where
  "demo_manager = \<lparr>mgr_context = Some ManagerContext,
     outputs = [\<lparr>dev_index = 0, dev_code = Some ''out.0'', dev_name = Some ''Speakers'',
                  dev_master_volume = 0\<rparr>,
                \<lparr>dev_index = 1, dev_code = Some ''out.1'', dev_name = Some ''Headphones'',
                  dev_master_volume = 0\<rparr>],
     output_count = 2, active_output_device = Some ''out.0''\<rparr>"

text \<open>The same server when it hangs, and after the headphones were unplugged.\<close>

definition demo_hung :: pulse where
  "demo_hung = demo_pulse\<lparr>responsive := False\<rparr>"

definition demo_unplugged :: pulse where
  "demo_unplugged = demo_pulse\<lparr>sinks := [demo_speakers]\<rparr>"

text \<open>
  The shared state of the source-list callback after sixteen sources: the array is full.
\<close>

definition demo_sources_full :: shared_data_sources_t where
  "demo_sources_full = \<lparr>sources = map mk_source [0..<16], count = 16, allocated = 16,
     reallocs = 2\<rparr>"

section \<open>Proofs: growth of the source array\<close>

lemma cb_item_full:
  assumes "count sh = allocated sh" and "allocated sh + 8 < 2 ^ 32"
  shows "get_available_input_devices_cb all_ok (Some info) 0 sh =
           Inr (sh\<lparr>allocated := allocated sh + 8, reallocs := reallocs sh + 1,
                   sources := sources sh @ [info], count := count sh + 1\<rparr>, False)"
proof -
  have a: "uint32_t (allocated sh + 8) = allocated sh + 8"
    using assms(2) by (simp add: uint32_t_def)
  have c: "uint32_t (allocated sh + 1) = allocated sh + 1"
    using assms(2) by (simp add: uint32_t_def)
  show ?thesis
    unfolding get_available_input_devices_cb_def Let_def all_ok_def
    using assms(1) a c by simp
qed

lemma cb_item_room:
  assumes "count sh < allocated sh" and "allocated sh < 2 ^ 32"
  shows "get_available_input_devices_cb all_ok (Some info) 0 sh =
           Inr (sh\<lparr>sources := sources sh @ [info], count := count sh + 1\<rparr>, False)"
proof -
  have c: "uint32_t (count sh + 1) = count sh + 1"
    using assms by (simp add: uint32_t_def)
  show ?thesis
    unfolding get_available_input_devices_cb_def Let_def all_ok_def
    using assms(1) c by simp
qed

lemma cb_item_ok:
  assumes inv: "allocated sh = 8 * reallocs sh" "count sh \<le> allocated sh"
      "allocated sh < count sh + 8"
    and bnd: "count sh + 8 < 2 ^ 32"
  shows "\<exists>sh'. get_available_input_devices_cb all_ok (Some info) 0 sh = Inr (sh', False)
           \<and> count sh' = count sh + 1
           \<and> allocated sh' = 8 * reallocs sh' \<and> count sh' \<le> allocated sh'
           \<and> allocated sh' < count sh' + 8
           \<and> sources sh' = sources sh @ [info]"
proof (cases "count sh = allocated sh")
  case True
  have b: "allocated sh + 8 < 2 ^ 32" using True bnd by simp
  show ?thesis
    unfolding cb_item_full [OF True b] using inv True by simp
next
  case False
  have a: "count sh < allocated sh" using inv False by simp
  have b: "allocated sh < 2 ^ 32" using inv bnd by simp
  show ?thesis
    unfolding cb_item_room [OF a b] using inv a by simp
qed

lemma deliver_sources_items:
  assumes "allocated sh = 8 * reallocs sh" "count sh \<le> allocated sh"
      "allocated sh < count sh + 8"
    and "count sh + length infos + 8 \<le> 2 ^ 32"
  shows "\<exists>sh'. deliver_sources (source_items infos) sh = Inr sh'
           \<and> count sh' = count sh + length infos
           \<and> allocated sh' = 8 * reallocs sh' \<and> count sh' \<le> allocated sh'
           \<and> allocated sh' < count sh' + 8
           \<and> sources sh' = sources sh @ infos"
  using assms
proof (induction infos arbitrary: sh)
  case Nil
  then show ?case by (simp add: source_items_def)
next
  case (Cons info infos)
  from Cons.prems have b: "count sh + 8 < 2 ^ 32" by simp
  from cb_item_ok [OF Cons.prems(1-3) b, of info]
  obtain sh1 where s1: "get_available_input_devices_cb all_ok (Some info) 0 sh = Inr (sh1, False)"
    and c1: "count sh1 = count sh + 1"
    and a1: "allocated sh1 = 8 * reallocs sh1" "count sh1 \<le> allocated sh1"
       "allocated sh1 < count sh1 + 8"
    and l1: "sources sh1 = sources sh @ [info]"
    by blast
  have b1: "count sh1 + length infos + 8 \<le> 2 ^ 32" using Cons.prems(4) c1 by simp
  from Cons.IH [OF a1 b1]
  obtain sh2 where s2: "deliver_sources (source_items infos) sh1 = Inr sh2"
    and c2: "count sh2 = count sh1 + length infos"
    and a2: "allocated sh2 = 8 * reallocs sh2" "count sh2 \<le> allocated sh2"
       "allocated sh2 < count sh2 + 8"
    and l2: "sources sh2 = sources sh1 @ infos"
    by blast
  have "deliver_sources (source_items (info # infos)) sh = Inr sh2"
    using s1 s2 by (simp add: source_items_def)
  moreover have "count sh2 = count sh + length (info # infos)" using c1 c2 by simp
  moreover have "sources sh2 = sources sh @ info # infos" using l1 l2 by simp
  ultimately show ?case using a2 by blast
qed

lemma sources_after:
  assumes "length infos + 8 \<le> 2 ^ 32"
  shows "deliver_sources (source_items infos) shared_data_sources_init =
           Inr \<lparr>sources = infos, count = length infos,
                allocated = 8 * ((length infos + 7) div 8),
                reallocs = (length infos + 7) div 8\<rparr>"
proof -
  from deliver_sources_items [of shared_data_sources_init infos] assms
  obtain sh where d: "deliver_sources (source_items infos) shared_data_sources_init = Inr sh"
    and c: "count sh = length infos"
    and a: "allocated sh = 8 * reallocs sh" "count sh \<le> allocated sh"
       "allocated sh < count sh + 8"
    and l: "sources sh = infos"
    by (auto simp add: shared_data_sources_init_def)
  have r: "reallocs sh = (length infos + 7) div 8" using a c by linarith
  have "sh = \<lparr>sources = infos, count = length infos,
             allocated = 8 * ((length infos + 7) div 8),
             reallocs = (length infos + 7) div 8\<rparr>"
    using c a(1) l r by simp
  with d show ?thesis by simp
qed

section \<open>Proofs: the environment and the queries\<close>

lemma submit_fields [simp]:
  "context_ready (submit r p) = context_ready p"
  "query_ready (submit r p) = query_ready p"
  "responsive (submit r p) = responsive p"
  "sinks (submit r p) = sinks p"
  "default_sink_name (submit r p) = default_sink_name p"
  "sink_inputs (submit r p) = sink_inputs p"
  "submitted (submit r p) = submitted p @ [r]"
  "diagnostics (submit r p) = diagnostics p"
  by (simp_all add: submit_def)

lemma print_fields [simp]:
  "context_ready (print msg p) = context_ready p"
  "query_ready (print msg p) = query_ready p"
  "responsive (print msg p) = responsive p"
  "sinks (print msg p) = sinks p"
  "default_sink_name (print msg p) = default_sink_name p"
  "sink_inputs (print msg p) = sink_inputs p"
  "submitted (print msg p) = submitted p"
  "diagnostics (print msg p) = diagnostics p @ [msg]"
  by (simp_all add: print_def)

lemma set_sink_volume_fields [simp]:
  "context_ready (set_sink_volume i v p) = context_ready p"
  "query_ready (set_sink_volume i v p) = query_ready p"
  "responsive (set_sink_volume i v p) = responsive p"
  "default_sink_name (set_sink_volume i v p) = default_sink_name p"
  "sink_inputs (set_sink_volume i v p) = sink_inputs p"
  "submitted (set_sink_volume i v p) = submitted p"
  "diagnostics (set_sink_volume i v p) = diagnostics p"
  by (simp_all add: set_sink_volume_def)

lemma set_sink_mute_fields [simp]:
  "context_ready (set_sink_mute i v p) = context_ready p"
  "query_ready (set_sink_mute i v p) = query_ready p"
  "responsive (set_sink_mute i v p) = responsive p"
  "default_sink_name (set_sink_mute i v p) = default_sink_name p"
  "sink_inputs (set_sink_mute i v p) = sink_inputs p"
  "submitted (set_sink_mute i v p) = submitted p"
  "diagnostics (set_sink_mute i v p) = diagnostics p"
  by (simp_all add: set_sink_mute_def)

lemma move_sink_input_fields [simp]:
  "context_ready (move_sink_input i t p) = context_ready p"
  "query_ready (move_sink_input i t p) = query_ready p"
  "responsive (move_sink_input i t p) = responsive p"
  "sinks (move_sink_input i t p) = sinks p"
  "default_sink_name (move_sink_input i t p) = default_sink_name p"
  "submitted (move_sink_input i t p) = submitted p"
  "diagnostics (move_sink_input i t p) = diagnostics p"
  by (simp_all add: move_sink_input_def)

lemma pa_context_ready_simps [simp]:
  "pa_context_ready (submit r p) c = pa_context_ready p c"
  "pa_context_ready (print msg p) c = pa_context_ready p c"
  "pa_context_ready (set_sink_volume i v p) c = pa_context_ready p c"
  "pa_context_ready (set_sink_mute i b p) c = pa_context_ready p c"
  "pa_context_ready (move_sink_input i t p) c = pa_context_ready p c"
  by (simp_all add: pa_context_ready_def split: pa_context.splits)

lemma sink_by_index_simps [simp]:
  "sink_by_index (submit r p) i = sink_by_index p i"
  "sink_by_index (print msg p) i = sink_by_index p i"
  "sink_by_index (move_sink_input j t p) i = sink_by_index p i"
  by (simp_all add: sink_by_index_def)

lemma sink_by_name_simps [simp]:
  "sink_by_name (submit r p) n = sink_by_name p n"
  "sink_by_name (print msg p) n = sink_by_name p n"
  "sink_by_name (move_sink_input j t p) n = sink_by_name p n"
  by (simp_all add: sink_by_name_def)

lemma find_map_update:
  assumes "\<And>s. P (f s) = P s"
  shows "find P (map f xs) = map_option f (find P xs)"
  using assms by (induction xs) simp_all

lemma sink_by_index_set_sink_volume:
  "sink_by_index (set_sink_volume i v p) j =
     map_option (\<lambda>s. if sink_index s = i then s\<lparr>sink_volume := v\<rparr> else s) (sink_by_index p j)"
  unfolding sink_by_index_def set_sink_volume_def
  by (simp add: find_map_update)

lemma sink_by_name_set_sink_volume:
  "sink_by_name (set_sink_volume i v p) n =
     map_option (\<lambda>s. if sink_index s = i then s\<lparr>sink_volume := v\<rparr> else s) (sink_by_name p n)"
  unfolding sink_by_name_def set_sink_volume_def
  by (simp add: find_map_update)

lemma sink_by_index_SomeD: "sink_by_index p i = Some s \<Longrightarrow> sink_index s = i"
  unfolding sink_by_index_def by (auto simp: find_Some_iff)

lemma sink_by_name_SomeD: "sink_by_name p n = Some s \<Longrightarrow> sink_name s = Some n"
  unfolding sink_by_name_def by (auto simp: find_Some_iff)

lemma get_output_device_by_index_found:
  assumes "query_ready p" "responsive p" "sink_by_index p idx = Some s" "sink_name s \<noteq> None"
  shows "get_output_device_by_index idx p = (Returned (Some s), submit (GetSinkInfoByIndex idx) p)"
  using assms
  by (simp add: get_output_device_by_index_def pa_context_get_sink_info_by_index_def
      pa_context_ready_def sink_info_reply_def iterate_sq_def get_output_device_by_index_cb_def)

lemma get_output_device_by_index_missing:
  assumes "query_ready p" "\<not> responsive p \<or> sink_by_index p idx = None"
  shows "get_output_device_by_index idx p = (Blocked, submit (GetSinkInfoByIndex idx) p)"
  using assms
  by (auto simp add: get_output_device_by_index_def pa_context_get_sink_info_by_index_def
      pa_context_ready_def sink_info_reply_def iterate_sq_def get_output_device_by_index_cb_def)

section \<open>Proofs: \<^verbatim>\<open>manager_set_master_volume\<close>\<close>

lemma raw_volume_bounds:
  assumes "0 \<le> volume" "volume \<le> 100"
  shows "nat (volume * int PA_VOLUME_NORM div 100) \<le> PA_VOLUME_NORM"
proof -
  have "volume * 65536 div 100 \<le> 65536" using assms by linarith
  then show ?thesis by (simp add: PA_VOLUME_NORM_def)
qed

lemma pa_cvolume_valid_set:
  assumes "0 < n" "n \<le> PA_CHANNELS_MAX" "v \<le> PA_VOLUME_MAX"
  shows "pa_cvolume_valid (pa_cvolume_set n v)"
  using assms by (simp add: pa_cvolume_valid_def pa_cvolume_set_def list_all_iff)

lemma manager_set_master_volume_out_of_range:
  assumes "volume < 0 \<or> volume > 100"
  shows "manager_set_master_volume (Some m) device_id volume p =
           (Returned (- 1),
            print ''[manager_set_master_volume] The volume specified is out of range (0-100).'' p)"
  using assms by (auto simp add: manager_set_master_volume_def)

lemma set_volume_accepted:
  assumes "pa_context_ready p c" "responsive p" "pa_cvolume_valid v"
    "sink_by_index p idx = Some s" "length v = length (sink_volume s)"
  shows "pa_context_set_sink_volume_by_index c idx v cb p =
           (Some (dispatch (cb c) [1]),
            set_sink_volume idx v (submit (SetSinkVolumeByIndex idx v) p))"
  using assms
  by (simp add: pa_context_set_sink_volume_by_index_def ack_reply_def Let_def)

lemma manager_set_master_volume_found:
  assumes "mgr_context m = Some c" "pa_context_ready p c" "query_ready p" "responsive p"
    and "sink_by_index p device_id = Some s" "sink_name s \<noteq> None"
    and "0 \<le> volume" "volume \<le> 100"
    and "sink_channel_map_channels s = length (sink_volume s)"
    and "0 < length (sink_volume s)" "length (sink_volume s) \<le> PA_CHANNELS_MAX"
  shows "manager_set_master_volume (Some m) device_id volume p =
           (let cvolume = replicate (length (sink_volume s))
                            (nat (volume * int PA_VOLUME_NORM div 100))
            in (Returned 0,
                print ''Volume set successfully.''
                  (set_sink_volume device_id cvolume
                     (submit (SetSinkVolumeByIndex device_id cvolume)
                        (submit (GetSinkInfoByIndex device_id) p)))))"
proof -
  let ?raw = "nat (volume * int PA_VOLUME_NORM div 100)"
  let ?cv = "pa_cvolume_set (length (sink_volume s)) ?raw"
  let ?p1 = "submit (GetSinkInfoByIndex device_id) p"
  have lookup: "get_output_device_by_index device_id p = (Returned (Some s), ?p1)"
    using assms by (simp add: get_output_device_by_index_found)
  have "?raw \<le> PA_VOLUME_MAX"
    using raw_volume_bounds [OF assms(7,8)] by (simp add: PA_VOLUME_NORM_def PA_VOLUME_MAX_def)
  then have valid: "pa_cvolume_valid ?cv"
    using assms by (simp add: pa_cvolume_valid_set)
  have len: "length ?cv = length (sink_volume s)" by (simp add: pa_cvolume_set_def)
  have wr: "pa_context_set_sink_volume_by_index c device_id ?cv manager_set_master_volume_cb ?p1 =
           (Some (dispatch (manager_set_master_volume_cb c) [1]),
            set_sink_volume device_id ?cv (submit (SetSinkVolumeByIndex device_id ?cv) ?p1))"
    using assms valid len by (intro set_volume_accepted) simp_all
  have neg: "\<not> (volume < 0 \<or> volume > 100)" using assms by simp
  show ?thesis
    unfolding manager_set_master_volume_def
    using neg assms(1,9)
    by (simp add: lookup wr [unfolded pa_cvolume_set_def] Let_def iterate_def
        manager_set_master_volume_cb_def pa_cvolume_set_def)
qed

section \<open>Proofs: the wait loop of v-0.03\<close>

lemma wait_loop_bounded:
  assumes "wait_loop view n = Returned r" "n \<le> MAX_WAIT_CYCLES"
  shows "n \<le> wait_cycles r \<and> wait_cycles r \<le> MAX_WAIT_CYCLES
         \<and> (timeout_printed r \<longrightarrow> wait_cycles r = MAX_WAIT_CYCLES)"
  using assms
proof (induction view arbitrary: n)
  case Nil
  then show ?case by simp
next
  case (Cons s later)
  show ?case
  proof (cases "s = PA_OPERATION_RUNNING \<and> n < MAX_WAIT_CYCLES")
    case True
    then have "wait_loop later (n + 1) = Returned r" using Cons.prems by simp
    moreover have "n + 1 \<le> MAX_WAIT_CYCLES" using True by simp
    ultimately show ?thesis using Cons.IH [of "n + 1"] by fastforce
  next
    case False
    then show ?thesis using Cons.prems by (auto split: if_splits)
  qed
qed

lemma wait_loop_timeout_iff:
  assumes "wait_loop view n = Returned r" "n \<le> MAX_WAIT_CYCLES"
  shows "timeout_printed r \<longleftrightarrow>
           (MAX_WAIT_CYCLES - n < length view
            \<and> (\<forall>s \<in> set (take (MAX_WAIT_CYCLES - n + 1) view). s = PA_OPERATION_RUNNING))"
  using assms
proof (induction view arbitrary: n)
  case Nil
  then show ?case by simp
next
  case (Cons s later)
  show ?case
  proof (cases "s = PA_OPERATION_RUNNING")
    case run: True
    show ?thesis
    proof (cases "n < MAX_WAIT_CYCLES")
      case True
      then have step: "wait_loop later (n + 1) = Returned r" using Cons.prems run by simp
      have le: "n + 1 \<le> MAX_WAIT_CYCLES" using True by simp
      have eq: "MAX_WAIT_CYCLES - n = Suc (MAX_WAIT_CYCLES - (n + 1))" using True by simp
      show ?thesis
        using Cons.IH [OF step le] run by (simp add: eq del: One_nat_def)
    next
      case False
      then have "n = MAX_WAIT_CYCLES" using Cons.prems by simp
      then show ?thesis using Cons.prems run by auto
    qed
  next
    case False
    then show ?thesis using Cons.prems by auto
  qed
qed

lemma wait_loop_returns:
  assumes "n \<le> MAX_WAIT_CYCLES" "MAX_WAIT_CYCLES - n < length view"
  shows "\<exists>r. wait_loop view n = Returned r"
  using assms
proof (induction view arbitrary: n)
  case Nil
  then show ?case by simp
next
  case (Cons s later)
  show ?case
  proof (cases "s = PA_OPERATION_RUNNING \<and> n < MAX_WAIT_CYCLES")
    case True
    then have "n + 1 \<le> MAX_WAIT_CYCLES" "MAX_WAIT_CYCLES - (n + 1) < length later"
      using Cons.prems by auto
    from Cons.IH [OF this] show ?thesis using True by simp
  next
    case False
    then show ?thesis by auto
  qed
qed

lemma load_devices_returns_true:
  assumes "iterate_v003 (Some view) = Returned r"
  shows "load_devices (Some view) = Returned True"
  using assms by (simp add: load_devices_def)

lemma iterate_v003_running:
  "iterate_v003 (Some (replicate 101 PA_OPERATION_RUNNING)) =
     Returned \<lparr>wait_cycles = 100, timeout_printed = True\<rparr>"
  by code_simp

section \<open>Proofs: mute toggle and default-output switch\<close>

lemma manager_toggle_output_mute_result:
  assumes "mgr_context m = Some c" "pa_context_ready p c" "responsive p"
  shows "manager_toggle_output_mute (Some m) index state p =
           (if index \<ge> output_count m
            then (Returned (- 1), print ''Output device index out of range.'' p)
            else (Returned 0,
                  if sink_by_index p index = None
                  then print ''Failed to toggle mute state.''
                         (submit (SetSinkMuteByIndex index (state \<noteq> 0)) p)
                  else set_sink_mute index (state \<noteq> 0)
                         (submit (SetSinkMuteByIndex index (state \<noteq> 0)) p)))"
  using assms
  by (simp add: manager_toggle_output_mute_def pa_context_set_sink_mute_by_index_def
      ack_reply_def Let_def iterate_def manager_toggle_output_mute_cb_def)

lemma cb_2_item:
  assumes "pa_context_ready p c"
  shows "manager_switch_default_output_cb_2 c (Some i, 0) sd p =
           Inr (sd, snd (pa_context_move_sink_input_by_index c (input_index i) (new_index sd) p),
                True)"
  using assms
  by (simp add: manager_switch_default_output_cb_2_def
      pa_context_move_sink_input_by_index_def Let_def)

lemma move_request_effect:
  assumes "pa_context_ready p c"
  shows "pa_context_ready (snd (pa_context_move_sink_input_by_index c i t p)) c
     \<and> submitted (snd (pa_context_move_sink_input_by_index c i t p)) =
         submitted p @ [MoveSinkInputByIndex i t]
     \<and> default_sink_name (snd (pa_context_move_sink_input_by_index c i t p)) =
         default_sink_name p"
  using assms by (simp add: pa_context_move_sink_input_by_index_def Let_def)

lemma dispatch_cb_2:
  assumes "pa_context_ready p c"
  shows "\<exists>p'. dispatch (manager_switch_default_output_cb_2 c)
                 (map (\<lambda>i. (Some i, 0)) xs @ [(None, 1)]) sd p = Inr (sd, p', True)
           \<and> submitted p' =
               submitted p @ map (\<lambda>i. MoveSinkInputByIndex (input_index i) (new_index sd)) xs
           \<and> default_sink_name p' = default_sink_name p"
  using assms
proof (induction xs arbitrary: p)
  case Nil
  then show ?case by (simp add: manager_switch_default_output_cb_2_def)
next
  case (Cons x xs)
  let ?p1 = "snd (pa_context_move_sink_input_by_index c (input_index x) (new_index sd) p)"
  note eff = move_request_effect [OF Cons.prems, of "input_index x" "new_index sd"]
  from eff have r1: "pa_context_ready ?p1 c" by blast
  from Cons.IH [OF r1] obtain p' where
    d: "dispatch (manager_switch_default_output_cb_2 c)
          (map (\<lambda>i. (Some i, 0)) xs @ [(None, 1)]) sd ?p1 = Inr (sd, p', True)"
    and s: "submitted p' =
          submitted ?p1 @ map (\<lambda>i. MoveSinkInputByIndex (input_index i) (new_index sd)) xs"
    and n: "default_sink_name p' = default_sink_name ?p1"
    by blast
  have "dispatch (manager_switch_default_output_cb_2 c)
          (map (\<lambda>i. (Some i, 0)) (x # xs) @ [(None, 1)]) sd p = Inr (sd, p', True)"
    by (simp add: cb_2_item [OF Cons.prems] d)
  moreover have "submitted p' = submitted p @
      map (\<lambda>i. MoveSinkInputByIndex (input_index i) (new_index sd)) (x # xs)"
    using s eff by simp
  moreover have "default_sink_name p' = default_sink_name p" using n eff by simp
  ultimately show ?case by blast
qed

lemma get_output_device_index_by_code_found:
  assumes "query_ready p" "pa_context_ready p c" "responsive p" "sink_by_name p code = Some s"
  shows "get_output_device_index_by_code (Some c) (Some code) p =
           (Returned (sink_index s), submit (GetSinkInfoByName code) p)"
  using assms
  by (simp add: get_output_device_index_by_code_def pa_context_get_sink_info_by_name_def
      sink_info_reply_def iterate_sq_def get_output_device_index_by_code_cb_def)

lemma set_default_sink_found:
  assumes "pa_context_ready p c" "responsive p" "sink_by_name p code = Some s"
  shows "pa_context_set_default_sink c code cb p =
           (Some (dispatch (cb c) [1]),
            (submit (SetDefaultSink code) p)\<lparr>default_sink_name := Some code\<rparr>)"
  using assms by (simp add: pa_context_set_default_sink_def ack_reply_def Let_def)

lemma default_update_fields [simp]:
  "pa_context_ready (p\<lparr>default_sink_name := d\<rparr>) c = pa_context_ready p c"
  "sink_by_name (p\<lparr>default_sink_name := d\<rparr>) n = sink_by_name p n"
  "sink_by_index (p\<lparr>default_sink_name := d\<rparr>) i = sink_by_index p i"
  by (simp_all add: pa_context_ready_def sink_by_name_def sink_by_index_def
      split: pa_context.splits)

lemma manager_switch_default_output_valid:
  assumes valid: "device_index < output_count m" "output_count m = length (outputs m)"
    and code: "dev_code (outputs m ! device_index) = Some code"
    and ctx: "mgr_context m = Some c" "pa_context_ready p c" "query_ready p" "responsive p"
    and sink: "sink_by_name p code = Some s"
  shows "\<exists>p'. manager_switch_default_output (Some m) device_index p = (Returned True, p')
           \<and> submitted p' = submitted p @
                [SetDefaultSink code, GetSinkInfoByName code, GetSinkInputInfoList] @
                map (\<lambda>i. MoveSinkInputByIndex (input_index i) (sink_index s)) (sink_inputs p)
           \<and> default_sink_name p' = Some code"
proof -
  let ?p1 = "(submit (SetDefaultSink code) p)\<lparr>default_sink_name := Some code\<rparr>"
  let ?p3 = "submit (GetSinkInfoByName code) ?p1"
  let ?p4 = "submit GetSinkInputInfoList ?p3"
  let ?sd = "\<lparr>sd1_manager = m, new_index = sink_index s\<rparr>"
  have s1: "pa_context_set_default_sink c code manager_switch_default_output_cb p =
              (Some (dispatch (manager_switch_default_output_cb c) [1]), ?p1)"
    using ctx(2,4) sink by (rule set_default_sink_found)
  have it1: "iterate (Some (dispatch (manager_switch_default_output_cb c) [1])) () ?p1 =
              (Returned (), (), ?p1)"
    by (simp add: iterate_def manager_switch_default_output_cb_def)
  have s2: "get_output_device_index_by_code (Some c) (Some code) ?p1 =
              (Returned (sink_index s), ?p3)"
    using ctx sink by (intro get_output_device_index_by_code_found) simp_all
  have r4: "pa_context_ready ?p4 c" using ctx by simp
  from dispatch_cb_2 [OF r4, of "sink_inputs p" ?sd] obtain p' where
    d: "dispatch (manager_switch_default_output_cb_2 c)
          (map (\<lambda>i. (Some i, 0)) (sink_inputs p) @ [(None, 1)]) ?sd ?p4 = Inr (?sd, p', True)"
    and sub: "submitted p' = submitted ?p4 @
          map (\<lambda>i. MoveSinkInputByIndex (input_index i) (new_index ?sd)) (sink_inputs p)"
    and dn: "default_sink_name p' = default_sink_name ?p4"
    by blast
  have s3: "pa_context_get_sink_input_info_list c manager_switch_default_output_cb_2 ?p3 =
              (Some (dispatch (manager_switch_default_output_cb_2 c)
                       (map (\<lambda>i. (Some i, 0)) (sink_inputs p) @ [(None, 1)])), ?p4)"
    using ctx by (simp add: pa_context_get_sink_input_info_list_def)
  have it2: "iterate (Some (dispatch (manager_switch_default_output_cb_2 c)
                       (map (\<lambda>i. (Some i, 0)) (sink_inputs p) @ [(None, 1)]))) ?sd ?p4 =
              (Returned (), ?sd, p')"
    by (simp add: iterate_def d)
  have "manager_switch_default_output (Some m) device_index p = (Returned True, p')"
    unfolding manager_switch_default_output_def
    using valid code ctx(1) by (simp add: s1 it1 s2 s3 it2 Let_def)
  moreover have "submitted p' = submitted p @
                [SetDefaultSink code, GetSinkInfoByName code, GetSinkInputInfoList] @
                map (\<lambda>i. MoveSinkInputByIndex (input_index i) (sink_index s)) (sink_inputs p)"
    using sub by (simp add: submit_def)
  moreover have "default_sink_name p' = Some code" using dn by (simp add: submit_def)
  ultimately show ?thesis by blast
qed

section \<open>Proofs: per-channel mute\<close>

lemma foldl_max_le:
  assumes "a \<le> (M::nat)" "\<forall>x \<in> set xs. x \<le> M"
  shows "foldl max a xs \<le> M"
  using assms by (induction xs arbitrary: a) simp_all

lemma pa_cvolume_max_valid:
  assumes "pa_cvolume_valid v"
  shows "pa_cvolume_max v \<le> PA_VOLUME_MAX"
  using assms
  by (simp add: pa_cvolume_valid_def pa_cvolume_max_def PA_VOLUME_MUTED_def list_all_iff
      foldl_max_le)

lemma pa_cvolume_valid_update:
  assumes "pa_cvolume_valid v" "x \<le> PA_VOLUME_MAX"
  shows "pa_cvolume_valid (v[ch := x])"
proof -
  have "\<forall>y \<in> set (v[ch := x]). y \<le> PA_VOLUME_MAX"
    using assms set_update_subset_insert [of v ch x]
    by (auto simp add: pa_cvolume_valid_def list_all_iff)
  then show ?thesis using assms by (simp add: pa_cvolume_valid_def list_all_iff)
qed

lemma get_sink_info_found:
  assumes "pa_context_ready p c" "responsive p" "sink_by_index p idx = Some s"
  shows "pa_context_get_sink_info_by_index c idx cb p =
           (Some (dispatch (cb c) [(Some s, 0), (None, 1)]), submit (GetSinkInfoByIndex idx) p)"
  using assms by (simp add: pa_context_get_sink_info_by_index_def sink_info_reply_def)

lemma manager_set_output_mute_state_step:
  assumes ctx: "mgr_context m = Some c" "pa_context_ready p c" "responsive p"
    and sink: "sink_by_index p idx = Some s"
    and ch: "ch < length (sink_volume s)"
    and valid: "pa_cvolume_valid (sink_volume s)"
  shows "manager_set_output_mute_state (Some m) idx ch mute p =
           (let v = (sink_volume s)[ch := (if mute then PA_VOLUME_MUTED
                                            else pa_cvolume_max (sink_volume s))]
            in (Returned 0,
                set_sink_volume idx v
                  (submit (SetSinkVolumeByIndex idx v) (submit (GetSinkInfoByIndex idx) p))))"
proof -
  let ?x = "if mute then PA_VOLUME_MUTED else pa_cvolume_max (sink_volume s)"
  let ?v = "(sink_volume s)[ch := ?x]"
  let ?p1 = "submit (GetSinkInfoByIndex idx) p"
  let ?vd = "\<lparr>channel_index = ch, mute_state = mute, new_volume = None\<rparr>"
  have q1: "pa_context_get_sink_info_by_index c idx manager_set_output_channel_mute_state_cb p =
     (Some (dispatch (manager_set_output_channel_mute_state_cb c) [(Some s, 0), (None, 1)]), ?p1)"
    using ctx(2,3) sink by (rule get_sink_info_found)
  have it1: "iterate (Some (dispatch (manager_set_output_channel_mute_state_cb c)
                [(Some s, 0), (None, 1)])) ?vd ?p1 =
              (Returned (), ?vd\<lparr>new_volume := Some ?v\<rparr>, ?p1)"
    using ch by (simp add: iterate_def manager_set_output_channel_mute_state_cb_def Let_def)
  have "?x \<le> PA_VOLUME_MAX"
    using pa_cvolume_max_valid [OF valid] by (simp add: PA_VOLUME_MUTED_def)
  then have v: "pa_cvolume_valid ?v" using valid by (rule pa_cvolume_valid_update [rotated])
  have q2: "pa_context_set_sink_volume_by_index c idx ?v
              manager_set_output_channel_mute_state_cb2 ?p1 =
           (Some (dispatch (manager_set_output_channel_mute_state_cb2 c) [1]),
            set_sink_volume idx ?v (submit (SetSinkVolumeByIndex idx ?v) ?p1))"
    using ctx sink v by (intro set_volume_accepted) simp_all
  have it2: "\<And>d q. iterate (Some (dispatch (manager_set_output_channel_mute_state_cb2 c) [1]))
                d q = (Returned (), d, q)"
    by (simp add: iterate_def manager_set_output_channel_mute_state_cb2_def)
  show ?thesis
    unfolding manager_set_output_mute_state_def
    using ctx(1)
    by (simp only: q1 it1 q2 it2 Let_def option.case prod.case outcome.case
        shared_data_2_t.simps)
qed

lemma sink_by_index_after_write:
  assumes "sink_by_index q idx = Some s"
  shows "sink_by_index (set_sink_volume idx v q) idx = Some (s\<lparr>sink_volume := v\<rparr>)"
  using assms sink_by_index_SomeD [OF assms] by (simp add: sink_by_index_set_sink_volume)

lemma manager_set_output_mute_state_round_trip:
  assumes ctx: "mgr_context m = Some c" "pa_context_ready p c" "responsive p"
    and sink: "sink_by_index p idx = Some s"
    and ch: "ch < length (sink_volume s)"
    and valid: "pa_cvolume_valid (sink_volume s)"
  shows "\<exists>p1 p2. manager_set_output_mute_state (Some m) idx ch True p = (Returned 0, p1)
           \<and> manager_set_output_mute_state (Some m) idx ch False p1 = (Returned 0, p2)
           \<and> map_option sink_volume (sink_by_index p2 idx) =
                Some ((sink_volume s)
                        [ch := pa_cvolume_max ((sink_volume s)[ch := PA_VOLUME_MUTED])])"
proof -
  let ?v1 = "(sink_volume s)[ch := PA_VOLUME_MUTED]"
  let ?p1 = "set_sink_volume idx ?v1
               (submit (SetSinkVolumeByIndex idx ?v1) (submit (GetSinkInfoByIndex idx) p))"
  let ?s1 = "s\<lparr>sink_volume := ?v1\<rparr>"
  let ?v2 = "?v1[ch := pa_cvolume_max ?v1]"
  let ?p2 = "set_sink_volume idx ?v2
               (submit (SetSinkVolumeByIndex idx ?v2) (submit (GetSinkInfoByIndex idx) ?p1))"
  have idx: "sink_index s = idx" using sink by (rule sink_by_index_SomeD)
  have m1: "manager_set_output_mute_state (Some m) idx ch True p = (Returned 0, ?p1)"
    using manager_set_output_mute_state_step [OF ctx sink ch valid, of True]
    by (simp add: Let_def)
  have sink1: "sink_by_index ?p1 idx = Some ?s1"
    using sink by (intro sink_by_index_after_write) simp
  have valid1: "pa_cvolume_valid (sink_volume ?s1)"
    using pa_cvolume_valid_update [OF valid, of PA_VOLUME_MUTED ch]
    by (simp add: PA_VOLUME_MUTED_def)
  have ctx1: "pa_context_ready ?p1 c" "responsive ?p1" using ctx by simp_all
  have ch1: "ch < length (sink_volume ?s1)" using ch by simp
  have m2: "manager_set_output_mute_state (Some m) idx ch False ?p1 = (Returned 0, ?p2)"
    using manager_set_output_mute_state_step [OF ctx(1) ctx1 sink1 ch1 valid1, of False]
    by (simp add: Let_def)
  have "sink_by_index ?p2 idx = Some (?s1\<lparr>sink_volume := ?v2\<rparr>)"
    by (intro sink_by_index_after_write) (simp add: sink1)
  then have "map_option sink_volume (sink_by_index ?p2 idx) = Some ?v2" by simp
  then have "map_option sink_volume (sink_by_index ?p2 idx) =
                Some ((sink_volume s)[ch := pa_cvolume_max ?v1])" by simp
  with m1 m2 show ?thesis by blast
qed

section \<open>Proofs: the concrete server\<close>

lemma demo_facts:
  "sink_by_index demo_pulse 0 = Some demo_speakers"
  "sink_by_index demo_pulse 1 = Some demo_headphones"
  "sink_by_index demo_pulse 7 = None"
  "sink_by_index demo_hung 0 = Some demo_speakers"
  "sink_by_index demo_unplugged 1 = None"
  "sink_by_index demo_unplugged (Suc 0) = None"
  "sink_by_name demo_pulse ''out.1'' = Some demo_headphones"
  by (simp_all add: sink_by_index_def sink_by_name_def demo_pulse_def demo_hung_def
      demo_unplugged_def demo_speakers_def demo_headphones_def)

lemma demo_ready:
  "pa_context_ready demo_pulse ManagerContext" "query_ready demo_pulse" "responsive demo_pulse"
  "pa_context_ready demo_unplugged ManagerContext" "responsive demo_unplugged"
  "query_ready demo_hung" "\<not> responsive demo_hung"
  "submitted demo_pulse = []" "diagnostics demo_unplugged = []" "submitted demo_hung = []"
  "sink_inputs demo_pulse = demo_streams"
  by (simp_all add: pa_context_ready_def demo_pulse_def demo_hung_def demo_unplugged_def)

lemma demo_manager_facts:
  "mgr_context demo_manager = Some ManagerContext"
  "output_count demo_manager = 2" "length (outputs demo_manager) = 2"
  "dev_code (outputs demo_manager ! 1) = Some ''out.1''"
  by (simp_all add: demo_manager_def)

lemma demo_speakers_facts:
  "sink_name demo_speakers \<noteq> None" "sink_channel_map_channels demo_speakers = 2"
  "sink_volume demo_speakers = [30000, 50000]" "sink_index demo_headphones = 1"
  by (simp_all add: demo_speakers_def demo_headphones_def)

lemma demo_set_master_volume:
  assumes "0 \<le> v" "v \<le> 100"
  shows "manager_set_master_volume (Some demo_manager) 0 v demo_pulse =
     (let raw = nat (v * int PA_VOLUME_NORM div 100); cvolume = [raw, raw]
      in (Returned 0,
          print ''Volume set successfully.''
            (set_sink_volume 0 cvolume
               (submit (SetSinkVolumeByIndex 0 cvolume)
                  (submit (GetSinkInfoByIndex 0) demo_pulse)))))"
  using manager_set_master_volume_found [of demo_manager ManagerContext demo_pulse 0
      demo_speakers v] assms
  by (simp add: demo_facts demo_ready demo_manager_facts demo_speakers_facts PA_CHANNELS_MAX_def
      Let_def)

lemma manager_toggle_output_mute_hung:
  assumes "mgr_context m = Some c" "pa_context_ready p c" "\<not> responsive p"
    "index < output_count m"
  shows "manager_toggle_output_mute (Some m) index state p =
           (Blocked, submit (SetSinkMuteByIndex index (state \<noteq> 0)) p)"
  using assms
  by (simp add: manager_toggle_output_mute_def pa_context_set_sink_mute_by_index_def
      ack_reply_def Let_def iterate_def)

lemma demo_speakers_valid: "pa_cvolume_valid [30000, 50000]"
  by (simp add: pa_cvolume_valid_def PA_CHANNELS_MAX_def PA_VOLUME_MAX_def)

lemma demo_max: "pa_cvolume_max [PA_VOLUME_MUTED, 50000] = 50000"
  by (simp add: pa_cvolume_max_def PA_VOLUME_MUTED_def)

section \<open>The claims\<close>

text \<open>
  Claim C1, as amended. The claim asks that every wait path of \<^verbatim>\<open>iterate\<close> count its
  wait cycles, cut off at a bound and report a timeout failure to the caller. What the
  code does: \<^verbatim>\<open>iterate\<close> of v-0.03 performs at most \<open>MAX_WAIT_CYCLES\<close> = 100 waits; it
  prints the timeout line exactly when the operation is still running at each of its
  first 101 checks, and then returns like after a finished operation, so that its
  caller \<^verbatim>\<open>load_devices\<close> returns \<^verbatim>\<open>true\<close> whenever \<^verbatim>\<open>iterate\<close> returns; and it does
  return whenever the caller is woken more than 100 times. \<^verbatim>\<open>iterate\<close> of v-0.14 keeps no
  count: it stays blocked exactly when no callback of the operation signals.
\<close>

theorem iterate_wait_paths:
  "(MAX_WAIT_CYCLES < length view \<longrightarrow> (\<exists>r. iterate_v003 (Some view) = Returned r))
   \<and> (\<forall>r. iterate_v003 (Some view) = Returned r \<longrightarrow>
         wait_cycles r \<le> MAX_WAIT_CYCLES
         \<and> (timeout_printed r \<longleftrightarrow>
              (MAX_WAIT_CYCLES < length view
               \<and> (\<forall>s \<in> set (take (MAX_WAIT_CYCLES + 1) view). s = PA_OPERATION_RUNNING)))
         \<and> load_devices (Some view) = Returned True)
   \<and> (\<forall>run u p. (fst (iterate (Some run) u p) = Blocked) =
                  (\<exists>u' p'. run u p = Inr (u', p', False)))"
proof (intro conjI impI allI)
  assume "MAX_WAIT_CYCLES < length view"
  then show "\<exists>r. iterate_v003 (Some view) = Returned r"
    using wait_loop_returns [of 0 view] by (simp add: iterate_v003_def)
next
  fix r
  assume a: "iterate_v003 (Some view) = Returned r"
  then have w: "wait_loop view 0 = Returned r" by (simp add: iterate_v003_def)
  show "wait_cycles r \<le> MAX_WAIT_CYCLES" using wait_loop_bounded [OF w] by simp
  show "timeout_printed r \<longleftrightarrow>
          (MAX_WAIT_CYCLES < length view
           \<and> (\<forall>s \<in> set (take (MAX_WAIT_CYCLES + 1) view). s = PA_OPERATION_RUNNING))"
    using wait_loop_timeout_iff [OF w] by simp
  show "load_devices (Some view) = Returned True"
    using a by (rule load_devices_returns_true)
next
  fix run :: "'u pa_operation" and u p
  show "(fst (iterate (Some run) u p) = Blocked) = (\<exists>u' p'. run u p = Inr (u', p', False))"
    by (auto simp add: iterate_def split: sum.splits)
qed

theorem iterate_wait_paths_witness:
  "iterate_v003 (Some (replicate 101 PA_OPERATION_RUNNING)) =
     Returned \<lparr>wait_cycles = 100, timeout_printed = True\<rparr>
   \<and> wait_cycles \<lparr>wait_cycles = 100, timeout_printed = True\<rparr> \<le> MAX_WAIT_CYCLES
   \<and> load_devices (Some (replicate 101 PA_OPERATION_RUNNING)) = Returned True"
proof -
  have len: "MAX_WAIT_CYCLES < length (replicate 101 PA_OPERATION_RUNNING)"
    by (simp add: MAX_WAIT_CYCLES_def)
  note t = iterate_wait_paths [of "replicate 101 PA_OPERATION_RUNNING"]
  from t len have "\<exists>r. iterate_v003 (Some (replicate 101 PA_OPERATION_RUNNING)) = Returned r"
    by blast
  then obtain r where r: "iterate_v003 (Some (replicate 101 PA_OPERATION_RUNNING)) = Returned r"
    by blast
  from t r have b: "wait_cycles r \<le> MAX_WAIT_CYCLES"
    and l: "load_devices (Some (replicate 101 PA_OPERATION_RUNNING)) = Returned True"
    by blast+
  have "r = \<lparr>wait_cycles = 100, timeout_printed = True\<rparr>"
    using r iterate_v003_running by simp
  with r b l show ?thesis by simp
qed

theorem iterate_timeout_counterexample:
  "load_devices (Some (replicate 101 PA_OPERATION_RUNNING)) = Returned True
   \<and> iterate_v003 (Some (replicate 101 PA_OPERATION_RUNNING)) =
       Returned \<lparr>wait_cycles = 100, timeout_printed = True\<rparr>
   \<and> fst (manager_toggle_output_mute (Some demo_manager) 0 1 demo_hung) = Blocked"
  using load_devices_returns_true [OF iterate_v003_running] iterate_v003_running
    manager_toggle_output_mute_hung [of demo_manager ManagerContext demo_hung 0 1]
  by (simp add: demo_manager_facts demo_ready pa_context_ready_def demo_hung_def demo_pulse_def)

text \<open>
  Claim C2, as amended. For every volume outside \<open>[0, 100]\<close>,
  \<^verbatim>\<open>manager_set_master_volume\<close> returns \<open>-1\<close> and submits no request. A device id is not
  checked locally: for a volume in range and an id that no sink of the server has, the
  function submits one lookup request (sink info by index) and no volume write, and it
  does not return success.
\<close>

theorem manager_set_master_volume_validation:
  "(volume < 0 \<or> 100 < volume \<longrightarrow>
      fst (manager_set_master_volume (Some m) device_id volume p) = Returned (- 1)
      \<and> submitted (snd (manager_set_master_volume (Some m) device_id volume p)) = submitted p)
   \<and> (0 \<le> volume \<and> volume \<le> 100 \<and> query_ready p \<and> sink_by_index p device_id = None \<longrightarrow>
      submitted (snd (manager_set_master_volume (Some m) device_id volume p)) =
        submitted p @ [GetSinkInfoByIndex device_id]
      \<and> fst (manager_set_master_volume (Some m) device_id volume p) \<noteq> Returned 0)"
proof (intro conjI impI)
  assume "volume < 0 \<or> 100 < volume"
  then have "manager_set_master_volume (Some m) device_id volume p =
           (Returned (- 1),
            print ''[manager_set_master_volume] The volume specified is out of range (0-100).'' p)"
    by (rule manager_set_master_volume_out_of_range)
  then show "fst (manager_set_master_volume (Some m) device_id volume p) = Returned (- 1)"
    and "submitted (snd (manager_set_master_volume (Some m) device_id volume p)) = submitted p"
    by simp_all
next
  assume a: "0 \<le> volume \<and> volume \<le> 100 \<and> query_ready p \<and> sink_by_index p device_id = None"
  then have "get_output_device_by_index device_id p =
               (Blocked, submit (GetSinkInfoByIndex device_id) p)"
    by (simp add: get_output_device_by_index_missing)
  with a have "manager_set_master_volume (Some m) device_id volume p =
               (Blocked, submit (GetSinkInfoByIndex device_id) p)"
    by (simp add: manager_set_master_volume_def)
  then show "submitted (snd (manager_set_master_volume (Some m) device_id volume p)) =
        submitted p @ [GetSinkInfoByIndex device_id]"
    and "fst (manager_set_master_volume (Some m) device_id volume p) \<noteq> Returned 0"
    by simp_all
qed

theorem manager_set_master_volume_validation_witness:
  "fst (manager_set_master_volume (Some demo_manager) 0 500 demo_pulse) = Returned (- 1)
   \<and> submitted (snd (manager_set_master_volume (Some demo_manager) 0 500 demo_pulse)) = []
   \<and> submitted (snd (manager_set_master_volume (Some demo_manager) 7 50 demo_pulse)) =
       [GetSinkInfoByIndex 7]"
  using manager_set_master_volume_validation [of 500 demo_manager 0 demo_pulse]
    manager_set_master_volume_validation [of 50 demo_manager 7 demo_pulse]
  by (simp add: demo_facts demo_ready)

theorem manager_set_master_volume_lookup_counterexample:
  "sink_by_index demo_pulse 7 = None
   \<and> submitted demo_pulse = []
   \<and> submitted (snd (manager_set_master_volume (Some demo_manager) 7 50 demo_pulse)) =
       [GetSinkInfoByIndex 7]
   \<and> fst (manager_set_master_volume (Some demo_manager) 7 50 demo_pulse) = Blocked"
  using get_output_device_by_index_missing [of demo_pulse 7]
  by (simp add: manager_set_master_volume_def demo_facts demo_ready)

text \<open>
  Claim C3. For every valid output index whose record has a code that names a sink of
  the server, \<^verbatim>\<open>manager_switch_default_output\<close> asks the server to make that code the
  default sink, asks for the sink of that code again to get its numeric index, lists
  the active playback streams, and requests a move to that index for each stream of
  the list, in order; it returns \<^verbatim>\<open>true\<close> and the server's default is the code.
\<close>

theorem manager_switch_default_output_moves_streams:
  assumes "device_index < output_count m" "output_count m = length (outputs m)"
    and "dev_code (outputs m ! device_index) = Some code"
    and "mgr_context m = Some c" "pa_context_ready p c" "query_ready p" "responsive p"
    and "sink_by_name p code = Some s"
  shows "fst (manager_switch_default_output (Some m) device_index p) = Returned True
       \<and> submitted (snd (manager_switch_default_output (Some m) device_index p)) =
           submitted p @ [SetDefaultSink code, GetSinkInfoByName code, GetSinkInputInfoList] @
           map (\<lambda>i. MoveSinkInputByIndex (input_index i) (sink_index s)) (sink_inputs p)
       \<and> default_sink_name (snd (manager_switch_default_output (Some m) device_index p)) =
           Some code"
  using manager_switch_default_output_valid [OF assms] by auto

theorem manager_switch_default_output_moves_streams_witness:
  "fst (manager_switch_default_output (Some demo_manager) 1 demo_pulse) = Returned True
   \<and> submitted (snd (manager_switch_default_output (Some demo_manager) 1 demo_pulse)) =
       [SetDefaultSink ''out.1'', GetSinkInfoByName ''out.1'', GetSinkInputInfoList,
        MoveSinkInputByIndex 10 1, MoveSinkInputByIndex 11 1, MoveSinkInputByIndex 12 1]
   \<and> default_sink_name (snd (manager_switch_default_output (Some demo_manager) 1 demo_pulse)) =
       Some ''out.1''"
  using manager_switch_default_output_moves_streams [of 1 demo_manager "''out.1''"
      ManagerContext demo_pulse demo_headphones]
  by (simp add: demo_facts demo_ready demo_manager_def demo_speakers_facts demo_streams_def)

text \<open>
  Claim C4. The claim asks that for an index beyond the outputs the function touch no
  element outside the array before it validates the index. With two outputs and index
  2 the function reads \<^verbatim>\<open>self->outputs[2].index\<close> in its first statement, before the
  test of \<^verbatim>\<open>device_index >= self->output_count\<close>.
\<close>

theorem manager_switch_default_output_reads_before_check:
  "output_count demo_manager = 2
   \<and> length (outputs demo_manager) = 2
   \<and> manager_switch_default_output (Some demo_manager) 2 demo_pulse =
       (Fault OutOfBoundsRead, demo_pulse)"
  by (simp add: manager_switch_default_output_def demo_manager_def)

text \<open>
  Claim C5, as amended. For a device the server has and a volume in \<open>[0, 100]\<close>,
  \<^verbatim>\<open>manager_set_master_volume\<close> performs exactly two round-trips, in this order: the
  lookup of the sink by index, then the volume write. It returns 0, the server holds
  the vector that was written, and there is no fetch after the write; the manager is
  not modified.
\<close>

theorem manager_set_master_volume_round_trips:
  assumes "mgr_context m = Some c" "pa_context_ready p c" "query_ready p" "responsive p"
    and "sink_by_index p device_id = Some s" "sink_name s \<noteq> None"
    and "0 \<le> volume" "volume \<le> 100"
    and "sink_channel_map_channels s = length (sink_volume s)"
    and "0 < length (sink_volume s)" "length (sink_volume s) \<le> PA_CHANNELS_MAX"
  shows "fst (manager_set_master_volume (Some m) device_id volume p) = Returned 0
       \<and> (\<exists>cvolume.
            submitted (snd (manager_set_master_volume (Some m) device_id volume p)) =
              submitted p @ [GetSinkInfoByIndex device_id,
                             SetSinkVolumeByIndex device_id cvolume]
            \<and> map_option sink_volume
                (sink_by_index (snd (manager_set_master_volume (Some m) device_id volume p))
                   device_id) = Some cvolume)"
proof -
  let ?cv = "replicate (length (sink_volume s)) (nat (volume * int PA_VOLUME_NORM div 100))"
  let ?q = "submit (SetSinkVolumeByIndex device_id ?cv) (submit (GetSinkInfoByIndex device_id) p)"
  have r: "manager_set_master_volume (Some m) device_id volume p =
             (Returned 0, print ''Volume set successfully.'' (set_sink_volume device_id ?cv ?q))"
    using manager_set_master_volume_found [OF assms] by (simp add: Let_def)
  have "sink_by_index ?q device_id = Some s" using assms(5) by simp
  then have "sink_by_index (set_sink_volume device_id ?cv ?q) device_id =
               Some (s\<lparr>sink_volume := ?cv\<rparr>)"
    by (rule sink_by_index_after_write)
  then have "map_option sink_volume
      (sink_by_index (snd (manager_set_master_volume (Some m) device_id volume p)) device_id) =
      Some ?cv"
    by (simp add: r)
  moreover have "submitted (snd (manager_set_master_volume (Some m) device_id volume p)) =
              submitted p @ [GetSinkInfoByIndex device_id, SetSinkVolumeByIndex device_id ?cv]"
    by (simp add: r)
  ultimately show ?thesis using r by auto
qed

theorem manager_set_master_volume_round_trips_witness:
  "fst (manager_set_master_volume (Some demo_manager) 0 50 demo_pulse) = Returned 0
   \<and> (\<exists>cvolume.
        submitted (snd (manager_set_master_volume (Some demo_manager) 0 50 demo_pulse)) =
          [GetSinkInfoByIndex 0, SetSinkVolumeByIndex 0 cvolume]
        \<and> map_option sink_volume
            (sink_by_index (snd (manager_set_master_volume (Some demo_manager) 0 50 demo_pulse))
               0) = Some cvolume)"
  using manager_set_master_volume_round_trips [of demo_manager ManagerContext demo_pulse 0
      demo_speakers 50]
  by (simp add: demo_facts demo_ready demo_manager_facts demo_speakers_facts PA_CHANNELS_MAX_def)

theorem manager_set_master_volume_order_counterexample:
  "submitted demo_pulse = []
   \<and> submitted (snd (manager_set_master_volume (Some demo_manager) 0 50 demo_pulse)) =
       [GetSinkInfoByIndex 0, SetSinkVolumeByIndex 0 [32768, 32768]]"
  using demo_set_master_volume [of 50]
  by (simp add: Let_def PA_VOLUME_NORM_def demo_ready)

text \<open>
  Claim C6, as amended. The raw value that \<^verbatim>\<open>manager_set_master_volume\<close> writes to each
  channel is the linear map \<open>volume * PA_VOLUME_NORM / 100\<close> rounded down. It never
  exceeds \<open>PA_VOLUME_NORM\<close> and equals it exactly for \<open>volume = 100\<close>: no clamp to one
  unit below full scale is applied.
\<close>

theorem manager_set_master_volume_raw_value:
  assumes "mgr_context m = Some c" "pa_context_ready p c" "query_ready p" "responsive p"
    and "sink_by_index p device_id = Some s" "sink_name s \<noteq> None"
    and "0 \<le> volume" "volume \<le> 100"
    and "sink_channel_map_channels s = length (sink_volume s)"
    and "0 < length (sink_volume s)" "length (sink_volume s) \<le> PA_CHANNELS_MAX"
  shows "\<exists>raw. last (submitted (snd (manager_set_master_volume (Some m) device_id volume p))) =
                 SetSinkVolumeByIndex device_id (replicate (sink_channel_map_channels s) raw)
             \<and> int raw * 100 \<le> volume * int PA_VOLUME_NORM
             \<and> volume * int PA_VOLUME_NORM < (int raw + 1) * 100
             \<and> raw \<le> PA_VOLUME_NORM
             \<and> (raw = PA_VOLUME_NORM \<longleftrightarrow> volume = 100)"
proof -
  let ?raw = "nat (volume * int PA_VOLUME_NORM div 100)"
  let ?cv = "replicate (length (sink_volume s)) ?raw"
  have r: "manager_set_master_volume (Some m) device_id volume p =
             (Returned 0, print ''Volume set successfully.'' (set_sink_volume device_id ?cv
                (submit (SetSinkVolumeByIndex device_id ?cv)
                   (submit (GetSinkInfoByIndex device_id) p))))"
    using manager_set_master_volume_found [OF assms] by (simp add: Let_def)
  have l: "last (submitted (snd (manager_set_master_volume (Some m) device_id volume p))) =
             SetSinkVolumeByIndex device_id (replicate (sink_channel_map_channels s) ?raw)"
    by (simp add: r assms(9))
  have q: "int ?raw = volume * 65536 div 100"
    using assms(7) by (simp add: PA_VOLUME_NORM_def)
  have a1: "int ?raw * 100 \<le> volume * int PA_VOLUME_NORM"
    unfolding q by (simp add: PA_VOLUME_NORM_def)
  have a2: "volume * int PA_VOLUME_NORM < (int ?raw + 1) * 100"
    unfolding q by (simp add: PA_VOLUME_NORM_def)
  have a3: "?raw \<le> PA_VOLUME_NORM" using assms(7,8) by (rule raw_volume_bounds)
  have "int ?raw = 65536 \<longleftrightarrow> volume = 100"
    unfolding q using assms(7,8) by linarith
  then have a4: "?raw = PA_VOLUME_NORM \<longleftrightarrow> volume = 100"
    by (simp add: PA_VOLUME_NORM_def) linarith
  from l a1 a2 a3 a4 show ?thesis by blast
qed

theorem manager_set_master_volume_raw_value_witness:
  "\<exists>raw. last (submitted (snd (manager_set_master_volume (Some demo_manager) 0 50 demo_pulse))) =
            SetSinkVolumeByIndex 0 (replicate 2 raw)
         \<and> int raw * 100 \<le> 50 * int PA_VOLUME_NORM
         \<and> 50 * int PA_VOLUME_NORM < (int raw + 1) * 100
         \<and> raw \<le> PA_VOLUME_NORM
         \<and> raw \<noteq> PA_VOLUME_NORM"
  using manager_set_master_volume_raw_value [of demo_manager ManagerContext demo_pulse 0
      demo_speakers 50]
  by (simp add: demo_facts demo_ready demo_manager_facts demo_speakers_facts PA_CHANNELS_MAX_def)

theorem manager_set_master_volume_full_scale_counterexample:
  "last (submitted (snd (manager_set_master_volume (Some demo_manager) 0 100 demo_pulse))) =
     SetSinkVolumeByIndex 0 [PA_VOLUME_NORM, PA_VOLUME_NORM]"
  using demo_set_master_volume [of 100]
  by (simp add: Let_def PA_VOLUME_NORM_def)

text \<open>
  Claim C7, as amended. Muting a channel of an output device and then unmuting it
  leaves the other channels as they were and sets the channel to the maximum of the
  vector in which that channel is muted, that is, to the largest value among the other
  channels (\<open>PA_VOLUME_MUTED\<close> when there is none). The value before the mute comes back
  only when it equals that maximum.
\<close>

theorem manager_set_output_mute_state_mute_unmute:
  assumes "mgr_context m = Some c" "pa_context_ready p c" "responsive p"
    and "sink_by_index p idx = Some s"
    and "ch < length (sink_volume s)"
    and "pa_cvolume_valid (sink_volume s)"
  shows "fst (manager_set_output_mute_state (Some m) idx ch True p) = Returned 0
       \<and> fst (manager_set_output_mute_state (Some m) idx ch False
               (snd (manager_set_output_mute_state (Some m) idx ch True p))) = Returned 0
       \<and> map_option sink_volume
           (sink_by_index
              (snd (manager_set_output_mute_state (Some m) idx ch False
                      (snd (manager_set_output_mute_state (Some m) idx ch True p)))) idx) =
           Some ((sink_volume s)
                   [ch := pa_cvolume_max ((sink_volume s)[ch := PA_VOLUME_MUTED])])"
  using manager_set_output_mute_state_round_trip [OF assms] by auto

theorem manager_set_output_mute_state_mute_unmute_witness:
  "fst (manager_set_output_mute_state (Some demo_manager) 0 0 True demo_pulse) = Returned 0
   \<and> fst (manager_set_output_mute_state (Some demo_manager) 0 0 False
           (snd (manager_set_output_mute_state (Some demo_manager) 0 0 True demo_pulse))) =
       Returned 0"
  using manager_set_output_mute_state_mute_unmute [of demo_manager ManagerContext demo_pulse 0
      demo_speakers 0]
  by (simp add: demo_facts demo_ready demo_manager_facts demo_speakers_facts demo_speakers_valid)

theorem manager_set_output_mute_state_counterexample:
  "map_option sink_volume (sink_by_index demo_pulse 0) = Some [30000, 50000]
   \<and> map_option sink_volume
       (sink_by_index
          (snd (manager_set_output_mute_state (Some demo_manager) 0 0 False
                  (snd (manager_set_output_mute_state (Some demo_manager) 0 0 True demo_pulse))))
          0) = Some [50000, 50000]"
  using manager_set_output_mute_state_round_trip [of demo_manager ManagerContext demo_pulse 0
      demo_speakers 0]
  by (auto simp add: demo_facts demo_ready demo_manager_facts demo_speakers_facts
      demo_speakers_valid demo_max)

text \<open>
  Claim C8. The claim asks that \<^verbatim>\<open>manager_toggle_output_mute\<close> return an error whenever
  the completion callback reports that the mute change failed. With the headphones
  unplugged the server has no sink of index 1; the callback receives \<open>success = 0\<close> and
  prints its message, and the function returns 0.
\<close>

theorem manager_toggle_output_mute_returns_success_on_failure:
  "sink_by_index demo_unplugged 1 = None
   \<and> manager_toggle_output_mute (Some demo_manager) 1 1 demo_unplugged =
       (Returned 0,
        print ''Failed to toggle mute state.'' (submit (SetSinkMuteByIndex 1 True) demo_unplugged))"
  using manager_toggle_output_mute_result [of demo_manager ManagerContext demo_unplugged 1 1]
  by (simp add: demo_facts demo_ready demo_manager_facts)

text \<open>
  Claim C9, as amended. The source-list callback appends each record to an array whose
  capacity grows by eight slots whenever it is full. When every allocation succeeds,
  after \<open>n\<close> records (\<open>n + 8 \<le> 2 ^ 32\<close>) the array holds the \<open>n\<close> records in order, its
  capacity is eight times the number of reallocations, and that number is \<open>n / 8\<close>
  rounded up: one reallocation per eight records, not one per record and not
  logarithmic in \<open>n\<close>.
\<close>

theorem get_available_input_devices_cb_growth:
  assumes "length infos + 8 \<le> 2 ^ 32"
  shows "\<exists>sh. deliver_sources (source_items infos) shared_data_sources_init = Inr sh
            \<and> sources sh = infos \<and> count sh = length infos
            \<and> allocated sh = 8 * reallocs sh
            \<and> reallocs sh = (length infos + 7) div 8"
  using sources_after [OF assms] by simp

theorem get_available_input_devices_cb_growth_witness:
  "\<exists>sh. deliver_sources (source_items (map mk_source [0..<17])) shared_data_sources_init = Inr sh
        \<and> sources sh = map mk_source [0..<17] \<and> count sh = 17
        \<and> allocated sh = 8 * reallocs sh
        \<and> reallocs sh = 3"
  using get_available_input_devices_cb_growth [of "map mk_source [0..<17]"] by simp

theorem get_available_input_devices_cb_counterexample:
  "deliver_sources (source_items (map mk_source [0..<16])) shared_data_sources_init =
     Inr demo_sources_full
   \<and> count demo_sources_full = allocated demo_sources_full
   \<and> get_available_input_devices_cb all_ok (Some (mk_source 16)) 0 demo_sources_full =
       Inr (demo_sources_full\<lparr>allocated := 24, reallocs := 3,
              sources := sources demo_sources_full @ [mk_source 16], count := 17\<rparr>, False)
   \<and> (24 :: nat) < 2 * allocated demo_sources_full"
proof -
  have "deliver_sources (source_items (map mk_source [0..<16])) shared_data_sources_init =
     Inr demo_sources_full"
    using sources_after [of "map mk_source [0..<16]"] by (simp add: demo_sources_full_def)
  moreover have "get_available_input_devices_cb all_ok (Some (mk_source 16)) 0 demo_sources_full =
       Inr (demo_sources_full\<lparr>allocated := 24, reallocs := 3,
              sources := sources demo_sources_full @ [mk_source 16], count := 17\<rparr>, False)"
    using cb_item_full [of demo_sources_full "mk_source 16"]
    by (simp add: demo_sources_full_def)
  ultimately show ?thesis by (simp add: demo_sources_full_def)
qed

text \<open>
  Claim C10. For a device the server has and a volume in \<open>[0, 100]\<close>, a successful
  \<^verbatim>\<open>manager_set_master_volume\<close> writes one raw value to every channel of the device's
  channel map: the vector sent and the vector the server holds afterwards are
  \<open>channels\<close> copies of the same value, whatever the per-channel volumes were before.
\<close>

theorem manager_set_master_volume_uniform:
  assumes "mgr_context m = Some c" "pa_context_ready p c" "query_ready p" "responsive p"
    and "sink_by_index p device_id = Some s" "sink_name s \<noteq> None"
    and "0 \<le> volume" "volume \<le> 100"
    and "sink_channel_map_channels s = length (sink_volume s)"
    and "0 < length (sink_volume s)" "length (sink_volume s) \<le> PA_CHANNELS_MAX"
  shows "fst (manager_set_master_volume (Some m) device_id volume p) = Returned 0
       \<and> (\<exists>raw.
            last (submitted (snd (manager_set_master_volume (Some m) device_id volume p))) =
              SetSinkVolumeByIndex device_id (replicate (sink_channel_map_channels s) raw)
            \<and> map_option sink_volume
                (sink_by_index (snd (manager_set_master_volume (Some m) device_id volume p))
                   device_id) = Some (replicate (sink_channel_map_channels s) raw))"
proof -
  let ?cv = "replicate (length (sink_volume s)) (nat (volume * int PA_VOLUME_NORM div 100))"
  let ?q = "submit (SetSinkVolumeByIndex device_id ?cv) (submit (GetSinkInfoByIndex device_id) p)"
  have r: "manager_set_master_volume (Some m) device_id volume p =
             (Returned 0, print ''Volume set successfully.'' (set_sink_volume device_id ?cv ?q))"
    using manager_set_master_volume_found [OF assms] by (simp add: Let_def)
  have "sink_by_index ?q device_id = Some s" using assms(5) by simp
  then have "sink_by_index (set_sink_volume device_id ?cv ?q) device_id =
               Some (s\<lparr>sink_volume := ?cv\<rparr>)"
    by (rule sink_by_index_after_write)
  then have "map_option sink_volume
      (sink_by_index (snd (manager_set_master_volume (Some m) device_id volume p)) device_id) =
      Some (replicate (sink_channel_map_channels s)
              (nat (volume * int PA_VOLUME_NORM div 100)))"
    by (simp add: r assms(9))
  moreover have "last (submitted (snd (manager_set_master_volume (Some m) device_id volume p))) =
      SetSinkVolumeByIndex device_id (replicate (sink_channel_map_channels s)
              (nat (volume * int PA_VOLUME_NORM div 100)))"
    by (simp add: r assms(9))
  ultimately show ?thesis using r by auto
qed

theorem manager_set_master_volume_uniform_witness:
  "fst (manager_set_master_volume (Some demo_manager) 0 50 demo_pulse) = Returned 0
   \<and> (\<exists>raw.
        last (submitted (snd (manager_set_master_volume (Some demo_manager) 0 50 demo_pulse))) =
          SetSinkVolumeByIndex 0 (replicate 2 raw)
        \<and> map_option sink_volume
            (sink_by_index (snd (manager_set_master_volume (Some demo_manager) 0 50 demo_pulse))
               0) = Some (replicate 2 raw))"
  using manager_set_master_volume_uniform [of demo_manager ManagerContext demo_pulse 0
      demo_speakers 50]
  by (simp add: demo_facts demo_ready demo_manager_facts demo_speakers_facts PA_CHANNELS_MAX_def)

end
